theory Spec2Isabelle
  imports Main "HOL-Library.AList"
begin

section \<open>The callback handlers of the Spotted DMI bot\<close>

text \<open>
  A shallow embedding of \<^verbatim>\<open>modules/handlers/callback_handlers.py\<close>. Every handler
  takes the world (the stores and the record of the calls made to the bot and to the
  logger) and returns it updated, together with either the tuple it returns or the
  exception it raises.
\<close>

subsection \<open>Values, errors and records\<close>

text \<open>
  Errors of \<^verbatim>\<open>telegram.error\<close> that a call to the bot can raise: the two the handlers
  catch (\<^verbatim>\<open>except (BadRequest, Unauthorized)\<close>) and two they do not.
\<close>

datatype telegram_error = BadRequest | Unauthorized | TimedOut | NetworkError

fun caught :: "telegram_error \<Rightarrow> bool" where
  "caught BadRequest = True"
| "caught Unauthorized = True"
| "caught err = False"

text \<open>The exceptions a handler can end with; \<open>KeyError\<close> carries the missing key.\<close>

datatype py_error =
    KeyError string
  | IndexError
  | AttributeError
  | TypeError
  | TelegramError telegram_error

text \<open>A post is identified by the chat it is in and its message id there.\<close>

type_synonym ident = "int \<times> int"

text \<open>
  A pending post: the submitter and the admins' votes (\<open>True\<close> approves). A published
  post: the readers' reactions. The votes are rows (voter, vote), as in a table; that
  no voter has two rows is an invariant to be proved, not a property of the type.
\<close>

record pending_post =
  user_id :: int
  admin_votes :: "(int \<times> bool) list"

record published_post =
  user_votes :: "(int \<times> string) list"

text \<open>The \<^verbatim>\<open>inline_keyboard\<close> of a message: rows of button labels.\<close>

type_synonym keyboard = "string list list"

text \<open>
  The keyboards the renderer builds (\<^verbatim>\<open>update_approve_kb\<close> with its \<^verbatim>\<open>approve\<close>
  and \<^verbatim>\<open>reject\<close> keywords, \<^verbatim>\<open>update_vote_kb\<close>, \<^verbatim>\<open>get_stats_kb\<close>). The renderer is
  a collaborator outside this file: a keyboard is the record of what it was built from.
\<close>

datatype markup =
    update_approve_kb keyboard pending_post "int option" "int option"
  | update_vote_kb keyboard published_post
  | get_stats_kb

text \<open>What \<^verbatim>\<open>get_callback_info\<close> extracts from the update.\<close>

record info =
  chat_id :: int
  message_id :: int
  data :: string
  sender_id :: int
  sender_username :: "string option"
  query_id :: int
  reply_to_message :: "int option"
  inline_keyboard :: keyboard

text \<open>
  The configuration and constants the module imports (\<^verbatim>\<open>config_map\<close>, \<^verbatim>\<open>REACTION\<close>,
  \<^verbatim>\<open>STATE\<close>), the outcome of the transport and the read-only statistics of
  \<^verbatim>\<open>PostData\<close>, already formatted. None of them is defined in this module: they are
  parameters. The transport: \<open>notify u\<close> is the error that sending or forwarding a
  message to user \<open>u\<close> raises, \<open>None\<close> when it is delivered; \<open>channel_message\<close> and
  \<open>admin_message\<close> are the identity a post receives when it is sent to the channel or to
  the admins' group, \<open>None\<close> when it is refused; \<open>show_admins_votes\<close> is the error that
  the call of that name raises on a post, \<open>None\<close> when it returns.
\<close>

record env =
  n_votes :: int
  comments :: bool
  channel_id :: int
  REACTION :: "(string \<times> string) list"
  STATE_end :: int
  STATE_reporting_spot :: int
  notify :: "int \<Rightarrow> telegram_error option"
  channel_message :: "ident option"
  admin_message :: "ident option"
  show_admins_votes :: "ident \<Rightarrow> bool \<Rightarrow> telegram_error option"
  get_avg :: "string option \<Rightarrow> string"
  get_max_id :: "string option \<Rightarrow> string \<times> string \<times> string"
  get_n_posts :: string
  get_n_votes :: "string option \<Rightarrow> string"

datatype destination = Admin | Channel

text \<open>
  The calls made to the bot, to the stores and to the logger, in order; a call that
  raises is not recorded.
\<close>

datatype event =
    AnswerCallbackQuery int "string option"
  | SendMessage int string
  | ForwardMessage int int int
  | EditMessageText int int string "markup option"
  | EditMessageReplyMarkup int int "markup option"
  | SendPostTo destination ident
  | ShowAdminsVotes ident bool
  | DeletePost ident
  | LogError string
  | LogWarning string

record world =
  pending :: "ident \<rightharpoonup> pending_post"
  published :: "ident \<rightharpoonup> published_post"
  reports :: "(int \<times> int \<times> int) \<rightharpoonup> string"
  credited :: "int set"
  bot_data :: "ident \<rightharpoonup> int"
  user_data :: "int \<rightharpoonup> int"
  trace :: "event list"

text \<open>The tuple a handler returns: text, keyboard, new conversation state.\<close>

type_synonym reply = "string option \<times> markup option \<times> int option"

definition emit :: "event \<Rightarrow> world \<Rightarrow> world" where
  "emit e w = w\<lparr>trace := trace w @ [e]\<rparr>"

subsection \<open>The legacy tokens and the decoding of a token\<close>

definition old_reactions :: "string \<Rightarrow> string" where
  "old_reactions d =
     (if d = ''meme_vote_yes'' then ''meme_vote,1''
      else if d = ''meme_vote_no'' then ''meme_vote,0''
      else d)"

text \<open>
  Python's \<^verbatim>\<open>s.split(",")\<close>: the pieces between the commas, the empty ones
  included; a string with no comma is the only piece.
\<close>

fun split_comma :: "string \<Rightarrow> string list" where
  "split_comma [] = [[]]"
| "split_comma (c # cs) =
     (if c = CHR '','' then [] # split_comma cs
      else (case split_comma cs of
              [] \<Rightarrow> [[c]]
            | piece # pieces \<Rightarrow> (c # piece) # pieces))"

text \<open>
  The functions of the module whose name ends in \<^verbatim>\<open>_callback\<close>: what
  \<^verbatim>\<open>globals()[name]\<close> finds for such a name.
\<close>

datatype callback =
    Meme | Confirm | Settings | Approve_yes | Approve_no | Vote | Report_spot
  | Stats | Avg | Max | Tot | Close

definition globals :: "string \<Rightarrow> callback option" where
  "globals name =
     (if name = ''meme_callback'' then Some Meme
      else if name = ''confirm_callback'' then Some Confirm
      else if name = ''settings_callback'' then Some Settings
      else if name = ''approve_yes_callback'' then Some Approve_yes
      else if name = ''approve_no_callback'' then Some Approve_no
      else if name = ''vote_callback'' then Some Vote
      else if name = ''report_spot_callback'' then Some Report_spot
      else if name = ''stats_callback'' then Some Stats
      else if name = ''avg_callback'' then Some Avg
      else if name = ''max_callback'' then Some Max
      else if name = ''tot_callback'' then Some Tot
      else if name = ''close_callback'' then Some Close
      else None)"

subsection \<open>The stores\<close>

text \<open>
  Modelled from the spec: \<^verbatim>\<open>PendingPost.from_group\<close>, \<^verbatim>\<open>PublishedPost.from_channel\<close>
  and \<^verbatim>\<open>Report.get_post_report\<close> are not under src/. Spec 6: the store's
  \<^verbatim>\<open>get(identity)\<close> gives the record or NotFound; the handlers test the result against
  \<^verbatim>\<open>None\<close>.
\<close>

definition from_group :: "world \<Rightarrow> int \<Rightarrow> int \<Rightarrow> pending_post option" where
  "from_group w group_id g_message_id = pending w (group_id, g_message_id)"

definition from_channel :: "world \<Rightarrow> int \<Rightarrow> int \<Rightarrow> published_post option" where
  "from_channel w ch c_message_id = published w (ch, c_message_id)"

definition get_post_report :: "world \<Rightarrow> int \<Rightarrow> int \<Rightarrow> int \<Rightarrow> string option" where
  "get_post_report w uid ch c_message_id = reports w (uid, ch, c_message_id)"

text \<open>
  Modelled from the spec: \<^verbatim>\<open>PendingPost.set_admin_vote\<close> is not under src/. Spec 4.1:
  the count is the number of admins whose vote equals \<^verbatim>\<open>approve\<close>; if the admin already
  has an entry equal to \<^verbatim>\<open>approve\<close>, nothing is changed and the result is
  \<^verbatim>\<open>no_change = true\<close> with the unchanged count; otherwise the entry is overwritten or
  inserted and the count recomputed. The result is (new_count, no_change) and the record
  to persist.
\<close>

definition get_votes :: "bool \<Rightarrow> pending_post \<Rightarrow> int" where
  "get_votes vote p =
     int (length (filter (\<lambda>a. map_of (admin_votes p) a = Some vote)
                         (remdups (map fst (admin_votes p)))))"

definition set_admin_vote ::
  "pending_post \<Rightarrow> int \<Rightarrow> bool \<Rightarrow> (int \<times> bool) \<times> pending_post" where
  "set_admin_vote p admin_id approve =
     (if map_of (admin_votes p) admin_id = Some approve
      then ((get_votes approve p, True), p)
      else (let p' = p\<lparr>admin_votes := AList.update admin_id approve (admin_votes p)\<rparr>
            in ((get_votes approve p', False), p')))"

text \<open>
  The integer the handlers read from \<^verbatim>\<open>set_admin_vote\<close>: the source's method
  returns \<open>-1\<close> when the vote did not change (\<^verbatim>\<open>if n_approve != -1:  # the vote changed\<close>),
  the count otherwise.
\<close>

definition vote_count :: "int \<times> bool \<Rightarrow> int" where
  "vote_count r = (if snd r then - 1 else fst r)"

text \<open>
  Modelled from the spec: \<^verbatim>\<open>PublishedPost.set_user_vote\<close> is not under src/. Spec 4.2:
  the category is validated against the fixed enumeration, else InvalidCategory is
  signalled; if the voter's entry equals the category it is removed and the result is
  \<^verbatim>\<open>false\<close>; else the entry is inserted or overwritten and the result is \<^verbatim>\<open>true\<close>.
  InvalidCategory is the \<^verbatim>\<open>KeyError\<close> of the category: the error a category outside
  \<^verbatim>\<open>REACTION\<close> has at the call site, and the one the dispatcher logs (spec 7).
\<close>

definition set_user_vote ::
  "string list \<Rightarrow> published_post \<Rightarrow> int \<Rightarrow> string \<Rightarrow> py_error + (bool \<times> published_post)" where
  "set_user_vote categories p voter category =
     (if category \<notin> set categories then Inl (KeyError category)
      else if map_of (user_votes p) voter = Some category
      then Inr (False, p\<lparr>user_votes := AList.delete voter (user_votes p)\<rparr>)
      else Inr (True, p\<lparr>user_votes := AList.update voter category (user_votes p)\<rparr>))"

text \<open>
  Modelled from the spec: \<^verbatim>\<open>PendingPost.delete_post\<close> and \<^verbatim>\<open>send_post_to\<close> are not
  under src/. Spec 6: \<^verbatim>\<open>delete(identity)\<close> and \<^verbatim>\<open>create(identity, record)\<close>; spec 3:
  a PendingPost is created when a submission is accepted for review, a PublishedPost
  when a PendingPost is promoted, both with no votes. The identity of the new record is
  the one the transport gives the forwarded message; \<^verbatim>\<open>send_post_to\<close> returns
  \<^verbatim>\<open>None\<close> when the transport refuses the post.
\<close>

definition delete_post :: "ident \<Rightarrow> world \<Rightarrow> world" where
  "delete_post i w = emit (DeletePost i) (w\<lparr>pending := (pending w)(i := None)\<rparr>)"

definition send_post_to :: "env \<Rightarrow> destination \<Rightarrow> info \<Rightarrow> world \<Rightarrow> ident option \<times> world" where
  "send_post_to e dest info w =
     (case dest of
        Channel \<Rightarrow>
          (case channel_message e of
             None \<Rightarrow> (None, w)
           | Some i \<Rightarrow>
               (Some i,
                emit (SendPostTo Channel i)
                  (w\<lparr>published := (published w)(i \<mapsto> \<lparr>user_votes = []\<rparr>)\<rparr>)))
      | Admin \<Rightarrow>
          (case admin_message e of
             None \<Rightarrow> (None, w)
           | Some i \<Rightarrow>
               (Some i,
                emit (SendPostTo Admin i)
                  (w\<lparr>pending := (pending w)(i \<mapsto> \<lparr>user_id = sender_id info, admin_votes = []\<rparr>)\<rparr>))))"

text \<open>
  The table of credited users behind \<^verbatim>\<open>User.become_anonym\<close> and
  \<^verbatim>\<open>User.become_credited\<close>, as the docstring of \<^verbatim>\<open>settings_callback\<close> describes
  them; each tells whether the user already was what they ask to become.
\<close>

definition become_anonym :: "int \<Rightarrow> world \<Rightarrow> bool \<times> world" where
  "become_anonym uid w = (uid \<notin> credited w, w\<lparr>credited := credited w - {uid}\<rparr>)"

definition become_credited :: "int \<Rightarrow> world \<Rightarrow> bool \<times> world" where
  "become_credited uid w = (uid \<in> credited w, w\<lparr>credited := insert uid (credited w)\<rparr>)"

subsection \<open>The handlers behind \<^verbatim>\<open>meme_callback\<close>\<close>

text \<open>
  The texts are the source's, with the accents and the emoji dropped and a newline
  written as a blank.
\<close>

definition confirm_callback ::
  "env \<Rightarrow> info \<Rightarrow> string \<Rightarrow> world \<Rightarrow> (py_error + reply) \<times> world" where
  "confirm_callback e info arg w =
     (if arg = ''yes'' then
        (case send_post_to e Admin info w of
           (sent, w1) \<Rightarrow>
             (Inr (Some (if sent \<noteq> None
                         then ''Il tuo post e in fase di valutazione Una volta pubblicato, lo potrai trovare su @Spotted_DMI''
                         else ''Si e verificato un problema Assicurati che il tipo di post sia fra quelli consentiti''),
                   None, Some (STATE_end e)), w1))
      else if arg = ''no'' then
        (Inr (Some ''Va bene, alla prossima'', None, Some (STATE_end e)), w)
      else
        (Inr (None, None, Some (STATE_end e)),
         emit (LogError (''confirm_callback: invalid arg '' @ arg)) w))"

definition settings_callback ::
  "env \<Rightarrow> info \<Rightarrow> string \<Rightarrow> world \<Rightarrow> (py_error + reply) \<times> world" where
  "settings_callback e info arg w =
     (if arg = ''anonimo'' then
        (case become_anonym (sender_id info) w of
           (already, w1) \<Rightarrow>
             (Inr (Some (if already then ''Sei gia anonimo''
                         else ''La tua preferenza e stata aggiornata Ora i tuoi post saranno anonimi''),
                   None, None), w1))
      else if arg = ''credit'' then
        (case become_credited (sender_id info) w of
           (already, w1) \<Rightarrow>
             (Inr (Some ((if already then ''Sei gia creditato nei post ''
                          else ''La tua preferenza e stata aggiornata '')
                         @ (case sender_username info of
                              Some (c # cs) \<Rightarrow> ''I tuoi post avranno come credit @'' @ (c # cs)
                            | _ \<Rightarrow> ''ATTENZIONE: Non hai nessun username associato al tuo account telegram Se non lo aggiungi, non sarai creditato'')),
                   None, None), w1))
      else
        (Inr (None, None, None),
         emit (LogError (''settings_callback: invalid arg '' @ arg)) w))"

text \<open>
  The notification of the submitter in the two handlers below:
  \<^verbatim>\<open>try: bot.send_message(...) except (BadRequest, Unauthorized) as e: logger.warning(...)\<close>.
  One of the two errors is logged and the handler goes on; any other error leaves the
  handler.
\<close>

definition try_send_message ::
  "env \<Rightarrow> int \<Rightarrow> string \<Rightarrow> string \<Rightarrow> world \<Rightarrow> py_error + world" where
  "try_send_message e uid message_text warning w =
     (case notify e uid of
        None \<Rightarrow> Inr (emit (SendMessage uid message_text) w)
      | Some err \<Rightarrow>
          if caught err then Inr (emit (LogWarning warning) w)
          else Inl (TelegramError err))"

text \<open>
  The two handlers of the admins' votes. Once the quorum is reached the publication,
  the entry in \<^verbatim>\<open>bot_data\<close>, the notification, \<^verbatim>\<open>show_admins_votes\<close> and the
  deletion are separate calls, one after the other: the handler can be left between
  them, by the \<^verbatim>\<open>AttributeError\<close> of \<^verbatim>\<open>published_post.chat_id\<close> when the post was not
  sent, or by an error of the bot that is not caught.
\<close>

definition approve_yes_callback ::
  "env \<Rightarrow> info \<Rightarrow> string \<Rightarrow> world \<Rightarrow> (py_error + reply) \<times> world" where
  "approve_yes_callback e info arg w =
     (case from_group w (chat_id info) (message_id info) of
        None \<Rightarrow> (Inr (None, None, None), w)
      | Some pending_post \<Rightarrow>
          (let w1 = emit (AnswerCallbackQuery (query_id info) None) w;
               (r, pending_post') = set_admin_vote pending_post (sender_id info) True;
               n_approve = vote_count r;
               w2 = w1\<lparr>pending := (pending w1)((chat_id info, message_id info) \<mapsto> pending_post')\<rparr>
           in if n_approve \<ge> n_votes e then
                (let uid = user_id pending_post;
                     (published_post, w3) = send_post_to e Channel info w2
                 in case (if comments e
                          then (case published_post of
                                  None \<Rightarrow> Inl AttributeError
                                | Some i \<Rightarrow> Inr (w3\<lparr>bot_data := (bot_data w3)(i \<mapsto> uid)\<rparr>))
                          else Inr w3) of
                      Inl err \<Rightarrow> (Inl err, w3)
                    | Inr w4 \<Rightarrow>
                        (case try_send_message e uid
                                ''Il tuo ultimo post e stato pubblicato su @Spotted_DMI''
                                ''Notifying the user on approve_yes'' w4 of
                           Inl err \<Rightarrow> (Inl err, w4)
                         | Inr w5 \<Rightarrow>
                             (case show_admins_votes e (chat_id info, message_id info) True of
                                Some err \<Rightarrow> (Inl (TelegramError err), w5)
                              | None \<Rightarrow>
                                  (let w6 = emit (ShowAdminsVotes (chat_id info, message_id info) True) w5;
                                       w7 = delete_post (chat_id info, message_id info) w6
                                   in (Inr (None, None, None), w7)))))
              else if n_approve \<noteq> - 1 then
                (Inr (None,
                      Some (update_approve_kb (inline_keyboard info) pending_post' (Some n_approve) None),
                      None), w2)
              else (Inr (None, None, None), w2)))"

definition approve_no_callback ::
  "env \<Rightarrow> info \<Rightarrow> string \<Rightarrow> world \<Rightarrow> (py_error + reply) \<times> world" where
  "approve_no_callback e info arg w =
     (case from_group w (chat_id info) (message_id info) of
        None \<Rightarrow> (Inr (None, None, None), w)
      | Some pending_post \<Rightarrow>
          (let w1 = emit (AnswerCallbackQuery (query_id info) None) w;
               (r, pending_post') = set_admin_vote pending_post (sender_id info) False;
               n_reject = vote_count r;
               w2 = w1\<lparr>pending := (pending w1)((chat_id info, message_id info) \<mapsto> pending_post')\<rparr>
           in if n_reject \<ge> n_votes e then
                (let uid = user_id pending_post
                 in case try_send_message e uid
                           ''Il tuo ultimo post e stato rifiutato Puoi controllare le regole con /rules''
                           ''Notifying the user on approve_no'' w2 of
                      Inl err \<Rightarrow> (Inl err, w2)
                    | Inr w3 \<Rightarrow>
                        (case show_admins_votes e (chat_id info, message_id info) False of
                           Some err \<Rightarrow> (Inl (TelegramError err), w3)
                         | None \<Rightarrow>
                             (let w4 = emit (ShowAdminsVotes (chat_id info, message_id info) False) w3;
                                  w5 = delete_post (chat_id info, message_id info) w4
                              in (Inr (None, None, None), w5))))
              else if n_reject \<noteq> - 1 then
                (Inr (None,
                      Some (update_approve_kb (inline_keyboard info) pending_post' None (Some n_reject)),
                      None), w2)
              else (Inr (None, None, None), w2)))"

text \<open>
  \<^verbatim>\<open>vote_callback\<close> calls \<^verbatim>\<open>set_user_vote\<close> on what \<^verbatim>\<open>from_channel\<close> returned, with no
  test against \<^verbatim>\<open>None\<close>: on \<^verbatim>\<open>None\<close> the attribute access raises.
\<close>

definition vote_callback ::
  "env \<Rightarrow> info \<Rightarrow> string \<Rightarrow> world \<Rightarrow> (py_error + reply) \<times> world" where
  "vote_callback e info arg w =
     (case from_channel w (chat_id info) (message_id info) of
        None \<Rightarrow> (Inl AttributeError, w)
      | Some publishedPost \<Rightarrow>
          (case set_user_vote (map fst (REACTION e)) publishedPost (sender_id info) arg of
             Inl err \<Rightarrow> (Inl err, w)
           | Inr (was_added, publishedPost') \<Rightarrow>
               (let w1 = w\<lparr>published := (published w)((chat_id info, message_id info) \<mapsto> publishedPost')\<rparr>
                in case map_of (REACTION e) arg of
                     None \<Rightarrow> (Inl (KeyError arg), w1)
                   | Some reaction \<Rightarrow>
                       (let w2 = emit (AnswerCallbackQuery (query_id info)
                                         (Some ((if was_added then ''Hai messo un '' else ''Hai tolto il '')
                                                @ reaction))) w1
                        in (Inr (None,
                                 Some (update_vote_kb (inline_keyboard info) publishedPost'),
                                 None), w2)))))"

text \<open>
  \<^verbatim>\<open>info['message']['reply_to_message']['message_id']\<close> raises when the message is not
  a reply. The forward and the message to the reporter are not guarded: when the
  reporter cannot be reached the error leaves the handler.
\<close>

definition report_spot_callback ::
  "env \<Rightarrow> info \<Rightarrow> string \<Rightarrow> world \<Rightarrow> (py_error + reply) \<times> world" where
  "report_spot_callback e info args w =
     (case reply_to_message info of
        None \<Rightarrow> (Inl TypeError, w)
      | Some abusive_message_id \<Rightarrow>
          (case get_post_report w (sender_id info) (channel_id e) abusive_message_id of
             Some report \<Rightarrow>
               (Inr (None, None, Some (STATE_end e)),
                emit (AnswerCallbackQuery (query_id info) (Some ''Hai gia segnalato questo spot.'')) w)
           | None \<Rightarrow>
               (let w1 = emit (AnswerCallbackQuery (query_id info)
                                 (Some ''Segnala in privato tramite il bot.'')) w
                in case notify e (sender_id info) of
                     Some err \<Rightarrow> (Inl (TelegramError err), w1)
                   | None \<Rightarrow>
                       (let w2 = emit (ForwardMessage (sender_id info) (chat_id info) abusive_message_id) w1;
                            w3 = emit (SendMessage (sender_id info)
                                         ''Scrivi il motivo della segnalazione del post, altrimenti digita /cancel'') w2;
                            w4 = w3\<lparr>user_data := (user_data w3)(sender_id info \<mapsto> abusive_message_id)\<rparr>
                        in (Inr (None, None, Some (STATE_reporting_spot e)), w4)))))"

subsection \<open>The dispatcher \<^verbatim>\<open>meme_callback\<close>\<close>

text \<open>
  The call \<^verbatim>\<open>globals()[name](info, data[1])\<close> with the function found. The six
  handlers above take the two arguments. The four handlers of the statistics take one
  argument, so the call raises \<^verbatim>\<open>TypeError\<close>; the two dispatchers pass their
  arguments to \<^verbatim>\<open>get_callback_info\<close>, which reads attributes that a dict and a str
  do not have.
\<close>

definition call_meme ::
  "env \<Rightarrow> callback \<Rightarrow> info \<Rightarrow> string \<Rightarrow> world \<Rightarrow> (py_error + reply) \<times> world" where
  "call_meme e f info arg w =
     (case f of
        Confirm \<Rightarrow> confirm_callback e info arg w
      | Settings \<Rightarrow> settings_callback e info arg w
      | Approve_yes \<Rightarrow> approve_yes_callback e info arg w
      | Approve_no \<Rightarrow> approve_no_callback e info arg w
      | Vote \<Rightarrow> vote_callback e info arg w
      | Report_spot \<Rightarrow> report_spot_callback e info arg w
      | Meme \<Rightarrow> (Inl AttributeError, w)
      | Stats \<Rightarrow> (Inl AttributeError, w)
      | Avg \<Rightarrow> (Inl TypeError, w)
      | Max \<Rightarrow> (Inl TypeError, w)
      | Tot \<Rightarrow> (Inl TypeError, w)
      | Close \<Rightarrow> (Inl TypeError, w))"

text \<open>
  The end of \<^verbatim>\<open>meme_callback\<close>: a text that is neither \<^verbatim>\<open>None\<close> nor empty replaces
  the text of the message; otherwise a keyboard replaces its keyboard; the third
  component is returned.
\<close>

definition edit_menu :: "info \<Rightarrow> reply \<Rightarrow> world \<Rightarrow> (py_error + int option) \<times> world" where
  "edit_menu info r w =
     (case r of
        (message_text, reply_markup, output) \<Rightarrow>
          (Inr output,
           (case message_text of
              Some (c # cs) \<Rightarrow>
                emit (EditMessageText (chat_id info) (message_id info) (c # cs) reply_markup) w
            | _ \<Rightarrow>
                (case reply_markup of
                   Some m \<Rightarrow>
                     emit (EditMessageReplyMarkup (chat_id info) (message_id info) (Some m)) w
                 | None \<Rightarrow> w))))"

text \<open>
  \<^verbatim>\<open>meme_callback\<close>: the token is rewritten by \<^verbatim>\<open>old_reactions\<close>, split at the commas,
  the function is looked up (a \<^verbatim>\<open>KeyError\<close> when there is none), then \<^verbatim>\<open>data[1]\<close>
  is read (an \<^verbatim>\<open>IndexError\<close> when the token has no comma), then the function is
  called. Only \<^verbatim>\<open>KeyError\<close> is caught.
\<close>

definition meme_callback :: "env \<Rightarrow> info \<Rightarrow> world \<Rightarrow> (py_error + int option) \<times> world" where
  "meme_callback e info0 w =
     (let info = info0\<lparr>data := old_reactions (data info0)\<rparr> in
      case split_comma (data info) of
        [] \<Rightarrow> (Inl IndexError, w)
      | d0 # rest \<Rightarrow>
          (case globals (drop 5 d0 @ ''_callback'') of
             None \<Rightarrow>
               edit_menu info (None, None, None)
                 (emit (LogError (''meme_callback: '' @ drop 5 d0 @ ''_callback'')) w)
           | Some f \<Rightarrow>
               (case rest of
                  [] \<Rightarrow> (Inl IndexError, w)
                | d1 # ds \<Rightarrow>
                    (case call_meme e f info d1 w of
                       (Inl (KeyError k), w1) \<Rightarrow>
                         edit_menu info (None, None, None)
                           (emit (LogError (''meme_callback: '' @ k)) w1)
                     | (Inl err, w1) \<Rightarrow> (Inl err, w1)
                     | (Inr r, w1) \<Rightarrow> edit_menu info r w1))))"

subsection \<open>The dispatcher \<^verbatim>\<open>stats_callback\<close> and its handlers\<close>

definition avg_callback :: "env \<Rightarrow> string \<Rightarrow> py_error + string option" where
  "avg_callback e arg =
     (if arg = ''votes'' then
        Inr (Some (''Gli spot ricevono in media '' @ get_avg e None @ '' voti''))
      else (case map_of (REACTION e) arg of
              None \<Rightarrow> Inl (KeyError arg)
            | Some reaction \<Rightarrow>
                Inr (Some (''Gli spot ricevono in media '' @ get_avg e (Some arg) @ '' '' @ reaction))))"

definition max_callback :: "env \<Rightarrow> string \<Rightarrow> py_error + string option" where
  "max_callback e arg =
     (if arg = ''votes'' then
        (case get_max_id e None of
           (max_votes, m_id, ch_id) \<Rightarrow>
             Inr (Some (''Lo spot con piu voti ne ha '' @ max_votes
                        @ '' Lo trovi a questo link: https://t.me/c/'' @ drop 4 ch_id @ ''/'' @ m_id)))
      else (case get_max_id e (Some arg) of
              (max_votes, m_id, ch_id) \<Rightarrow>
                (case map_of (REACTION e) arg of
                   None \<Rightarrow> Inl (KeyError arg)
                 | Some reaction \<Rightarrow>
                     Inr (Some (''Lo spot con piu '' @ reaction @ '' ne ha '' @ max_votes
                                @ '' Lo trovi a questo link: https://t.me/c/'' @ drop 4 ch_id @ ''/'' @ m_id)))))"

definition tot_callback :: "env \<Rightarrow> string \<Rightarrow> py_error + string option" where
  "tot_callback e arg =
     (if arg = ''posts'' then
        Inr (Some (''Sono stati pubblicati '' @ get_n_posts e
                   @ '' spot nel canale fin'' @ ''ora. Potresti ampliare questo numero...''))
      else if arg = ''votes'' then
        Inr (Some (''Il totale dei voti ammonta a '' @ get_n_votes e None))
      else (case map_of (REACTION e) arg of
              None \<Rightarrow> Inl (KeyError arg)
            | Some reaction \<Rightarrow>
                Inr (Some (''Il totale dei '' @ reaction @ '' ammonta a '' @ get_n_votes e (Some arg)))))"

definition close_callback :: "string \<Rightarrow> py_error + string option" where
  "close_callback arg = Inr None"

text \<open>
  The call \<^verbatim>\<open>globals()[name](data[1])\<close>: the functions that take two arguments raise
  \<^verbatim>\<open>TypeError\<close> when called with one.
\<close>

definition call_stats :: "env \<Rightarrow> callback \<Rightarrow> string \<Rightarrow> py_error + string option" where
  "call_stats e f arg =
     (case f of
        Avg \<Rightarrow> avg_callback e arg
      | Max \<Rightarrow> max_callback e arg
      | Tot \<Rightarrow> tot_callback e arg
      | Close \<Rightarrow> close_callback arg
      | _ \<Rightarrow> Inl TypeError)"

definition stats_callback :: "env \<Rightarrow> info \<Rightarrow> world \<Rightarrow> (py_error + unit) \<times> world" where
  "stats_callback e info w =
     (let w1 = emit (AnswerCallbackQuery (query_id info) None) w in
      case split_comma (data info) of
        [] \<Rightarrow> (Inl IndexError, w1)
      | d0 # rest \<Rightarrow>
          (case globals (drop 6 d0 @ ''_callback'') of
             None \<Rightarrow>
               (Inr (), emit (LogError (''stats_callback: '' @ drop 6 d0 @ ''_callback'')) w1)
           | Some f \<Rightarrow>
               (case rest of
                  [] \<Rightarrow> (Inl IndexError, w1)
                | d1 # ds \<Rightarrow>
                    (case call_stats e f d1 of
                       Inl (KeyError k) \<Rightarrow> (Inr (), emit (LogError (''stats_callback: '' @ k)) w1)
                     | Inl err \<Rightarrow> (Inl err, w1)
                     | Inr (Some (c # cs)) \<Rightarrow>
                         (Inr (),
                          emit (EditMessageText (chat_id info) (message_id info) (c # cs)
                                  (Some get_stats_kb)) w1)
                     | Inr message_text \<Rightarrow>
                         (Inr (),
                          emit (EditMessageReplyMarkup (chat_id info) (message_id info) None) w1)))))"

subsection \<open>Observations on a run\<close>

text \<open>The calls a handler added to the record of calls, from the world before and after.\<close>

definition new_events :: "world \<Rightarrow> world \<Rightarrow> event list" where
  "new_events w w' = drop (length (trace w)) (trace w')"

text \<open>The calls that edit the originating message.\<close>

fun is_edit :: "event \<Rightarrow> bool" where
  "is_edit (EditMessageText c m t k) = True"
| "is_edit (EditMessageReplyMarkup c m k) = True"
| "is_edit ev = False"

text \<open>The stores of a world, without the record of calls.\<close>

definition stores ::
  "world \<Rightarrow> (ident \<rightharpoonup> pending_post) \<times> (ident \<rightharpoonup> published_post)
            \<times> ((int \<times> int \<times> int) \<rightharpoonup> string) \<times> int set \<times> (ident \<rightharpoonup> int) \<times> (int \<rightharpoonup> int)" where
  "stores w = (pending w, published w, reports w, credited w, bot_data w, user_data w)"

text \<open>
  The notification of a user returns: the message is delivered, or the error is one of
  the two the handlers catch. The call it then leaves in the record of calls.
\<close>

definition notified :: "env \<Rightarrow> int \<Rightarrow> bool" where
  "notified e uid = (case notify e uid of None \<Rightarrow> True | Some err \<Rightarrow> caught err)"

definition notification :: "env \<Rightarrow> int \<Rightarrow> string \<Rightarrow> string \<Rightarrow> event" where
  "notification e uid message_text warning =
     (case notify e uid of
        None \<Rightarrow> SendMessage uid message_text
      | Some err \<Rightarrow> LogWarning warning)"

text \<open>The categories a voter holds in a published post: one per row of theirs.\<close>

definition active_categories :: "published_post \<Rightarrow> int \<Rightarrow> string list" where
  "active_categories p voter = map snd (filter (\<lambda>row. fst row = voter) (user_votes p))"

text \<open>
  A sequence of \<^verbatim>\<open>set_user_vote\<close> calls (voter, category) on a post; a call that
  signals an invalid category leaves the post as it was.
\<close>

fun cast_votes :: "string list \<Rightarrow> published_post \<Rightarrow> (int \<times> string) list \<Rightarrow> published_post" where
  "cast_votes categories p [] = p"
| "cast_votes categories p ((voter, category) # calls) =
     (case set_user_vote categories p voter category of
        Inl err \<Rightarrow> cast_votes categories p calls
      | Inr (was_added, p') \<Rightarrow> cast_votes categories p' calls)"

subsection \<open>A configuration, a callback and a world to run the handlers on\<close>

definition example_env :: env where
  "example_env =
     \<lparr>n_votes = 2, comments = True, channel_id = - 100,
      REACTION = [(''0'', ''no''), (''1'', ''yes'')],
      STATE_end = - 1, STATE_reporting_spot = 3,
      notify = (\<lambda>u. None), channel_message = Some (- 100, 8),
      admin_message = Some (- 5, 41), show_admins_votes = (\<lambda>i approve. None),
      get_avg = (\<lambda>a. ''0''), get_max_id = (\<lambda>a. (''0'', ''0'', ''-100123'')),
      get_n_posts = ''0'', get_n_votes = (\<lambda>a. ''0'')\<rparr>"

definition example_info :: "int \<Rightarrow> int \<Rightarrow> string \<Rightarrow> int \<Rightarrow> info" where
  "example_info chat msg token sender =
     \<lparr>chat_id = chat, message_id = msg, data = token, sender_id = sender,
      sender_username = None, query_id = 1, reply_to_message = Some 7,
      inline_keyboard = []\<rparr>"

text \<open>
  One pending post, submitted by user 9 and approved by admin 1, on message 40 of the
  admins' group (chat \<open>-5\<close>); no published post, no report.
\<close>

definition example_world :: world where
  "example_world =
     \<lparr>pending = [(- 5, 40) \<mapsto> \<lparr>user_id = 9, admin_votes = [(1, True)]\<rparr>],
      published = Map.empty, reports = Map.empty, credited = {},
      bot_data = Map.empty, user_data = Map.empty, trace = []\<rparr>"


section \<open>The decoding of a token\<close>

lemma split_comma_not_Nil: "split_comma s \<noteq> []"
  by (induction s) (auto split: list.splits)

lemma split_comma_no_comma: "CHR '','' \<notin> set s \<Longrightarrow> split_comma s = [s]"
  by (induction s) auto

lemma split_comma_comma: "CHR '','' \<in> set s \<Longrightarrow> \<exists>d0 d1 ds. split_comma s = d0 # d1 # ds"
proof (induction s)
  case Nil
  then show ?case by simp
next
  case (Cons c s)
  show ?case
  proof (cases "c = CHR '',''")
    case True
    obtain x xs where "split_comma s = x # xs"
      using split_comma_not_Nil [of s] by (cases "split_comma s") auto
    with True show ?thesis by simp
  next
    case False
    with Cons obtain d0 d1 ds where "split_comma s = d0 # d1 # ds"
      by auto
    with False show ?thesis by simp
  qed
qed

lemma edit_menu_nothing: "edit_menu info (None, None, None) w = (Inr None, w)"
  by (simp add: edit_menu_def)

lemma meme_callback_unknown:
  assumes "split_comma (old_reactions (data info)) = d0 # rest"
    and "globals (drop 5 d0 @ ''_callback'') = None"
  shows "meme_callback e info w
         = (Inr None, emit (LogError (''meme_callback: '' @ drop 5 d0 @ ''_callback'')) w)"
  using assms by (simp add: meme_callback_def edit_menu_nothing)

lemma meme_callback_no_argument:
  assumes "split_comma (old_reactions (data info)) = [d0]"
    and "globals (drop 5 d0 @ ''_callback'') = Some f"
  shows "meme_callback e info w = (Inl IndexError, w)"
  using assms by (simp add: meme_callback_def)

lemma meme_callback_call:
  assumes "split_comma (old_reactions (data info)) = d0 # d1 # ds"
    and "globals (drop 5 d0 @ ''_callback'') = Some f"
  shows "meme_callback e info w
         = (case call_meme e f (info\<lparr>data := old_reactions (data info)\<rparr>) d1 w of
              (Inl (KeyError k), w1) \<Rightarrow>
                edit_menu (info\<lparr>data := old_reactions (data info)\<rparr>) (None, None, None)
                  (emit (LogError (''meme_callback: '' @ k)) w1)
            | (Inl err, w1) \<Rightarrow> (Inl err, w1)
            | (Inr r, w1) \<Rightarrow> edit_menu (info\<lparr>data := old_reactions (data info)\<rparr>) r w1)"
  using assms by (simp add: meme_callback_def Let_def)

section \<open>The legacy tokens\<close>

lemma old_reactions_idem: "old_reactions (old_reactions d) = old_reactions d"
  by (simp add: old_reactions_def)

lemma rewrite_twice:
  "(info\<lparr>data := old_reactions (data info)\<rparr>)
     \<lparr>data := old_reactions (data (info\<lparr>data := old_reactions (data info)\<rparr>))\<rparr>
   = info\<lparr>data := old_reactions (data info)\<rparr>"
  by (simp add: old_reactions_idem)

lemma meme_callback_rewritten:
  "meme_callback e info w = meme_callback e (info\<lparr>data := old_reactions (data info)\<rparr>) w"
  unfolding meme_callback_def by (simp only: rewrite_twice)

lemma old_reactions_yes: "old_reactions ''meme_vote_yes'' = ''meme_vote,1''"
  by (simp add: old_reactions_def)

lemma old_reactions_no: "old_reactions ''meme_vote_no'' = ''meme_vote,0''"
  by (simp add: old_reactions_def)

lemma old_reactions_other:
  "\<forall>d. d \<noteq> ''meme_vote_yes'' \<and> d \<noteq> ''meme_vote_no'' \<longrightarrow> old_reactions d = d"
  by (simp add: old_reactions_def)

lemma split_legacy_yes: "split_comma (old_reactions ''meme_vote_yes'') = [''meme_vote'', ''1'']"
  by (simp add: old_reactions_def)

lemma split_legacy_no: "split_comma (old_reactions ''meme_vote_no'') = [''meme_vote'', ''0'']"
  by (simp add: old_reactions_def)

lemma meme_callback_legacy_yes:
  assumes "data info = ''meme_vote_yes''"
  shows "meme_callback e info w
         = (case vote_callback e (info\<lparr>data := ''meme_vote,1''\<rparr>) ''1'' w of
              (Inl (KeyError k), w1) \<Rightarrow>
                edit_menu (info\<lparr>data := ''meme_vote,1''\<rparr>) (None, None, None)
                  (emit (LogError (''meme_callback: '' @ k)) w1)
            | (Inl err, w1) \<Rightarrow> (Inl err, w1)
            | (Inr r, w1) \<Rightarrow> edit_menu (info\<lparr>data := ''meme_vote,1''\<rparr>) r w1)"
proof -
  have d: "old_reactions (data info) = ''meme_vote,1''"
    by (simp add: assms old_reactions_def)
  have s: "split_comma (old_reactions (data info)) = ''meme_vote'' # ''1'' # []"
    by (simp add: d)
  have g: "globals (drop 5 ''meme_vote'' @ ''_callback'') = Some Vote"
    by (simp add: globals_def)
  have i: "info\<lparr>data := old_reactions (data info)\<rparr> = info\<lparr>data := ''meme_vote,1''\<rparr>"
    by (simp add: d)
  show ?thesis
    by (simp only: meme_callback_call [OF s g] i call_meme_def callback.case)
qed

lemma meme_callback_legacy_no:
  assumes "data info = ''meme_vote_no''"
  shows "meme_callback e info w
         = (case vote_callback e (info\<lparr>data := ''meme_vote,0''\<rparr>) ''0'' w of
              (Inl (KeyError k), w1) \<Rightarrow>
                edit_menu (info\<lparr>data := ''meme_vote,0''\<rparr>) (None, None, None)
                  (emit (LogError (''meme_callback: '' @ k)) w1)
            | (Inl err, w1) \<Rightarrow> (Inl err, w1)
            | (Inr r, w1) \<Rightarrow> edit_menu (info\<lparr>data := ''meme_vote,0''\<rparr>) r w1)"
proof -
  have d: "old_reactions (data info) = ''meme_vote,0''"
    by (simp add: assms old_reactions_def)
  have s: "split_comma (old_reactions (data info)) = ''meme_vote'' # ''0'' # []"
    by (simp add: d)
  have g: "globals (drop 5 ''meme_vote'' @ ''_callback'') = Some Vote"
    by (simp add: globals_def)
  have i: "info\<lparr>data := old_reactions (data info)\<rparr> = info\<lparr>data := ''meme_vote,0''\<rparr>"
    by (simp add: d)
  show ?thesis
    by (simp only: meme_callback_call [OF s g] i call_meme_def callback.case)
qed

text \<open>
  Claim C9. \<^verbatim>\<open>old_reactions\<close> maps \<^verbatim>\<open>meme_vote_yes\<close> to \<^verbatim>\<open>meme_vote,1\<close> and
  \<^verbatim>\<open>meme_vote_no\<close> to \<^verbatim>\<open>meme_vote,0\<close>, and is the identity on every other string.
  It is applied before the token is split at the commas: the handler that
  \<^verbatim>\<open>meme_callback\<close> calls and the argument it passes are the command and the argument
  of the rewritten token, split at the commas, and the handler receives the rewritten
  token. So the token \<^verbatim>\<open>meme_vote_yes\<close> is a call of \<^verbatim>\<open>vote_callback\<close> with the
  argument \<^verbatim>\<open>1\<close>, the token \<^verbatim>\<open>meme_vote_no\<close> one with the argument \<^verbatim>\<open>0\<close>, and a
  token and its rewriting are treated alike.
\<close>

theorem legacy_token_rewriting:
  "old_reactions ''meme_vote_yes'' = ''meme_vote,1''
   \<and> old_reactions ''meme_vote_no'' = ''meme_vote,0''
   \<and> (\<forall>d. d \<noteq> ''meme_vote_yes'' \<and> d \<noteq> ''meme_vote_no'' \<longrightarrow> old_reactions d = d)
   \<and> (\<forall>e (info :: info) w d0 d1 ds f.
        split_comma (old_reactions (data info)) = d0 # d1 # ds
        \<and> globals (drop 5 d0 @ ''_callback'') = Some f \<longrightarrow>
        meme_callback e info w
          = (case call_meme e f (info\<lparr>data := old_reactions (data info)\<rparr>) d1 w of
               (Inl (KeyError k), w1) \<Rightarrow>
                 edit_menu (info\<lparr>data := old_reactions (data info)\<rparr>) (None, None, None)
                   (emit (LogError (''meme_callback: '' @ k)) w1)
             | (Inl err, w1) \<Rightarrow> (Inl err, w1)
             | (Inr r, w1) \<Rightarrow> edit_menu (info\<lparr>data := old_reactions (data info)\<rparr>) r w1))
   \<and> (\<forall>e (info :: info) w. data info = ''meme_vote_yes'' \<longrightarrow>
        meme_callback e info w
          = (case vote_callback e (info\<lparr>data := ''meme_vote,1''\<rparr>) ''1'' w of
               (Inl (KeyError k), w1) \<Rightarrow>
                 edit_menu (info\<lparr>data := ''meme_vote,1''\<rparr>) (None, None, None)
                   (emit (LogError (''meme_callback: '' @ k)) w1)
             | (Inl err, w1) \<Rightarrow> (Inl err, w1)
             | (Inr r, w1) \<Rightarrow> edit_menu (info\<lparr>data := ''meme_vote,1''\<rparr>) r w1))
   \<and> (\<forall>e (info :: info) w. data info = ''meme_vote_no'' \<longrightarrow>
        meme_callback e info w
          = (case vote_callback e (info\<lparr>data := ''meme_vote,0''\<rparr>) ''0'' w of
               (Inl (KeyError k), w1) \<Rightarrow>
                 edit_menu (info\<lparr>data := ''meme_vote,0''\<rparr>) (None, None, None)
                   (emit (LogError (''meme_callback: '' @ k)) w1)
             | (Inl err, w1) \<Rightarrow> (Inl err, w1)
             | (Inr r, w1) \<Rightarrow> edit_menu (info\<lparr>data := ''meme_vote,0''\<rparr>) r w1))
   \<and> (\<forall>e info w. meme_callback e info w
                    = meme_callback e (info\<lparr>data := old_reactions (data info)\<rparr>) w)
   \<and> split_comma (old_reactions ''meme_vote_yes'') = [''meme_vote'', ''1'']
   \<and> split_comma (old_reactions ''meme_vote_no'') = [''meme_vote'', ''0'']"
proof (intro conjI)
  show "\<forall>e (info :: info) w d0 d1 ds f.
        split_comma (old_reactions (data info)) = d0 # d1 # ds
        \<and> globals (drop 5 d0 @ ''_callback'') = Some f \<longrightarrow>
        meme_callback e info w
          = (case call_meme e f (info\<lparr>data := old_reactions (data info)\<rparr>) d1 w of
               (Inl (KeyError k), w1) \<Rightarrow>
                 edit_menu (info\<lparr>data := old_reactions (data info)\<rparr>) (None, None, None)
                   (emit (LogError (''meme_callback: '' @ k)) w1)
             | (Inl err, w1) \<Rightarrow> (Inl err, w1)
             | (Inr r, w1) \<Rightarrow> edit_menu (info\<lparr>data := old_reactions (data info)\<rparr>) r w1)"
  proof (intro allI impI)
    fix e and info :: info and w d0 d1 ds f
    assume "split_comma (old_reactions (data info)) = d0 # d1 # ds
            \<and> globals (drop 5 d0 @ ''_callback'') = Some f"
    then have s: "split_comma (old_reactions (data info)) = d0 # d1 # ds"
      and g: "globals (drop 5 d0 @ ''_callback'') = Some f"
      by simp_all
    show "meme_callback e info w
          = (case call_meme e f (info\<lparr>data := old_reactions (data info)\<rparr>) d1 w of
               (Inl (KeyError k), w1) \<Rightarrow>
                 edit_menu (info\<lparr>data := old_reactions (data info)\<rparr>) (None, None, None)
                   (emit (LogError (''meme_callback: '' @ k)) w1)
             | (Inl err, w1) \<Rightarrow> (Inl err, w1)
             | (Inr r, w1) \<Rightarrow> edit_menu (info\<lparr>data := old_reactions (data info)\<rparr>) r w1)"
      by (rule meme_callback_call [OF s g])
  qed
  show "\<forall>e (info :: info) w. data info = ''meme_vote_yes'' \<longrightarrow>
        meme_callback e info w
          = (case vote_callback e (info\<lparr>data := ''meme_vote,1''\<rparr>) ''1'' w of
               (Inl (KeyError k), w1) \<Rightarrow>
                 edit_menu (info\<lparr>data := ''meme_vote,1''\<rparr>) (None, None, None)
                   (emit (LogError (''meme_callback: '' @ k)) w1)
             | (Inl err, w1) \<Rightarrow> (Inl err, w1)
             | (Inr r, w1) \<Rightarrow> edit_menu (info\<lparr>data := ''meme_vote,1''\<rparr>) r w1)"
    by (intro allI impI) (rule meme_callback_legacy_yes)
  show "\<forall>e (info :: info) w. data info = ''meme_vote_no'' \<longrightarrow>
        meme_callback e info w
          = (case vote_callback e (info\<lparr>data := ''meme_vote,0''\<rparr>) ''0'' w of
               (Inl (KeyError k), w1) \<Rightarrow>
                 edit_menu (info\<lparr>data := ''meme_vote,0''\<rparr>) (None, None, None)
                   (emit (LogError (''meme_callback: '' @ k)) w1)
             | (Inl err, w1) \<Rightarrow> (Inl err, w1)
             | (Inr r, w1) \<Rightarrow> edit_menu (info\<lparr>data := ''meme_vote,0''\<rparr>) r w1)"
    by (intro allI impI) (rule meme_callback_legacy_no)
  show "\<forall>e info w. meme_callback e info w
                    = meme_callback e (info\<lparr>data := old_reactions (data info)\<rparr>) w"
    by (intro allI) (rule meme_callback_rewritten)
qed (rule old_reactions_yes old_reactions_no old_reactions_other
       split_legacy_yes split_legacy_no)+

theorem legacy_token_rewriting_witness:
  "''meme_confirm,yes'' \<noteq> ''meme_vote_yes'' \<and> ''meme_confirm,yes'' \<noteq> ''meme_vote_no''
   \<and> old_reactions ''meme_confirm,yes'' = ''meme_confirm,yes''
   \<and> split_comma (old_reactions (data (example_info (- 100) 7 ''meme_vote_yes'' 3)))
       = [''meme_vote'', ''1'']
   \<and> globals (drop 5 ''meme_vote'' @ ''_callback'') = Some Vote
   \<and> meme_callback example_env (example_info (- 100) 7 ''meme_vote_yes'' 3)
         (example_world\<lparr>published := [(- 100, 7) \<mapsto> \<lparr>user_votes = []\<rparr>]\<rparr>)
       = (Inr None,
          emit (EditMessageReplyMarkup (- 100) 7
                  (Some (update_vote_kb [] \<lparr>user_votes = [(3, ''1'')]\<rparr>)))
            (emit (AnswerCallbackQuery 1 (Some ''Hai messo un yes''))
               (example_world\<lparr>published := [(- 100, 7) \<mapsto> \<lparr>user_votes = [(3, ''1'')]\<rparr>]\<rparr>)))
   \<and> data (example_info (- 100) 7 ''meme_vote_no'' 3) = ''meme_vote_no''
   \<and> meme_callback example_env (example_info (- 100) 7 ''meme_vote_no'' 3)
         (example_world\<lparr>published := [(- 100, 7) \<mapsto> \<lparr>user_votes = []\<rparr>]\<rparr>)
       = (Inr None,
          emit (EditMessageReplyMarkup (- 100) 7
                  (Some (update_vote_kb [] \<lparr>user_votes = [(3, ''0'')]\<rparr>)))
            (emit (AnswerCallbackQuery 1 (Some ''Hai messo un no''))
               (example_world\<lparr>published := [(- 100, 7) \<mapsto> \<lparr>user_votes = [(3, ''0'')]\<rparr>]\<rparr>)))"
proof -
  let ?yes = "example_info (- 100) 7 ''meme_vote_yes'' 3"
  let ?no = "example_info (- 100) 7 ''meme_vote_no'' 3"
  let ?w = "example_world\<lparr>published := [(- 100, 7) \<mapsto> \<lparr>user_votes = []\<rparr>]\<rparr>"
  have d: "''meme_confirm,yes'' \<noteq> ''meme_vote_yes'' \<and> ''meme_confirm,yes'' \<noteq> ''meme_vote_no''"
    by simp
  note t = legacy_token_rewriting
  note other = t [THEN conjunct2, THEN conjunct2, THEN conjunct1, THEN spec, THEN mp, OF d]
  have s: "split_comma (old_reactions (data ?yes)) = [''meme_vote'', ''1'']"
    by (simp add: example_info_def old_reactions_def)
  have g: "globals (drop 5 ''meme_vote'' @ ''_callback'') = Some Vote"
    by (simp add: globals_def)
  have dn: "data ?no = ''meme_vote_no''"
    by (simp add: example_info_def)
  have rewritten: "?yes\<lparr>data := old_reactions (data ?yes)\<rparr>
                   = example_info (- 100) 7 ''meme_vote,1'' 3"
    "?no\<lparr>data := ''meme_vote,0''\<rparr> = example_info (- 100) 7 ''meme_vote,0'' 3"
    by (simp_all add: example_info_def old_reactions_def)
  have vote_yes: "vote_callback example_env (example_info (- 100) 7 ''meme_vote,1'' 3) ''1'' ?w
        = (Inr (None, Some (update_vote_kb [] \<lparr>user_votes = [(3, ''1'')]\<rparr>), None),
           emit (AnswerCallbackQuery 1 (Some ''Hai messo un yes''))
             (example_world\<lparr>published := [(- 100, 7) \<mapsto> \<lparr>user_votes = [(3, ''1'')]\<rparr>]\<rparr>))"
    by (simp add: vote_callback_def from_channel_def set_user_vote_def example_info_def
        example_env_def example_world_def)
  have vote_no: "vote_callback example_env (example_info (- 100) 7 ''meme_vote,0'' 3) ''0'' ?w
        = (Inr (None, Some (update_vote_kb [] \<lparr>user_votes = [(3, ''0'')]\<rparr>), None),
           emit (AnswerCallbackQuery 1 (Some ''Hai messo un no''))
             (example_world\<lparr>published := [(- 100, 7) \<mapsto> \<lparr>user_votes = [(3, ''0'')]\<rparr>]\<rparr>))"
    by (simp add: vote_callback_def from_channel_def set_user_vote_def example_info_def
        example_env_def example_world_def)
  have ids: "chat_id (example_info (- 100) 7 ''meme_vote,1'' 3) = - 100"
    "message_id (example_info (- 100) 7 ''meme_vote,1'' 3) = 7"
    "chat_id (example_info (- 100) 7 ''meme_vote,0'' 3) = - 100"
    "message_id (example_info (- 100) 7 ''meme_vote,0'' 3) = 7"
    by (simp_all add: example_info_def)
  have yes: "meme_callback example_env ?yes ?w
       = (Inr None,
          emit (EditMessageReplyMarkup (- 100) 7
                  (Some (update_vote_kb [] \<lparr>user_votes = [(3, ''1'')]\<rparr>)))
            (emit (AnswerCallbackQuery 1 (Some ''Hai messo un yes''))
               (example_world\<lparr>published := [(- 100, 7) \<mapsto> \<lparr>user_votes = [(3, ''1'')]\<rparr>]\<rparr>)))"
    using t [THEN conjunct2, THEN conjunct2, THEN conjunct2, THEN conjunct1, THEN spec,
        THEN spec, THEN spec, THEN spec, THEN spec, THEN spec, THEN spec, THEN mp,
        OF conjI [OF s g], of example_env ?w]
    by (simp add: rewritten call_meme_def vote_yes edit_menu_def ids)
  have no: "meme_callback example_env ?no ?w
       = (Inr None,
          emit (EditMessageReplyMarkup (- 100) 7
                  (Some (update_vote_kb [] \<lparr>user_votes = [(3, ''0'')]\<rparr>)))
            (emit (AnswerCallbackQuery 1 (Some ''Hai messo un no''))
               (example_world\<lparr>published := [(- 100, 7) \<mapsto> \<lparr>user_votes = [(3, ''0'')]\<rparr>]\<rparr>)))"
    using t [THEN conjunct2, THEN conjunct2, THEN conjunct2, THEN conjunct2, THEN conjunct2,
        THEN conjunct1, THEN spec, THEN spec, THEN spec, THEN mp, OF dn, of example_env ?w]
    by (simp add: rewritten vote_no edit_menu_def ids)
  from d other s g yes dn no show ?thesis
    by (intro conjI) (erule conjunct1 conjunct2 | assumption)+
qed

section \<open>The admins' votes and the threshold\<close>

lemma set_admin_vote_holds:
  "map_of (admin_votes (snd (set_admin_vote p a v))) a = Some v"
  by (simp add: set_admin_vote_def Let_def update_conv')

lemma set_admin_vote_count:
  "fst (fst (set_admin_vote p a v)) = get_votes v (snd (set_admin_vote p a v))"
  by (simp add: set_admin_vote_def Let_def)

lemma set_admin_vote_again:
  "map_of (admin_votes p) a = Some v \<Longrightarrow> set_admin_vote p a v = ((get_votes v p, True), p)"
  by (simp add: set_admin_vote_def)

lemma set_admin_vote_twice:
  "set_admin_vote (snd (set_admin_vote p a v)) a v
   = ((fst (fst (set_admin_vote p a v)), True), snd (set_admin_vote p a v))"
  by (simp add: set_admin_vote_again [OF set_admin_vote_holds] set_admin_vote_count)

lemma approve_yes_not_found:
  "pending w (chat_id info, message_id info) = None \<Longrightarrow>
   approve_yes_callback e info arg w = (Inr (None, None, None), w)"
  by (simp add: approve_yes_callback_def from_group_def)

lemma approve_no_not_found:
  "pending w (chat_id info, message_id info) = None \<Longrightarrow>
   approve_no_callback e info arg w = (Inr (None, None, None), w)"
  by (simp add: approve_no_callback_def from_group_def)

lemma persist_same:
  "pending w i = Some p \<Longrightarrow> (emit ev w)\<lparr>pending := (pending (emit ev w))(i \<mapsto> p)\<rparr> = emit ev w"
  by (simp add: emit_def map_upd_triv)

lemma approve_yes_duplicate:
  assumes "pending w (chat_id info, message_id info) = Some p"
    and "map_of (admin_votes p) (sender_id info) = Some True"
    and "1 \<le> n_votes e"
  shows "approve_yes_callback e info arg w
         = (Inr (None, None, None), emit (AnswerCallbackQuery (query_id info) None) w)"
  using assms
  by (simp add: approve_yes_callback_def from_group_def set_admin_vote_again vote_count_def
      persist_same)

lemma approve_no_duplicate:
  assumes "pending w (chat_id info, message_id info) = Some p"
    and "map_of (admin_votes p) (sender_id info) = Some False"
    and "1 \<le> n_votes e"
  shows "approve_no_callback e info arg w
         = (Inr (None, None, None), emit (AnswerCallbackQuery (query_id info) None) w)"
  using assms
  by (simp add: approve_no_callback_def from_group_def set_admin_vote_again vote_count_def
      persist_same)


lemma try_send_message_delivered:
  "notify e uid = None \<Longrightarrow>
   try_send_message e uid message_text warning w = Inr (emit (SendMessage uid message_text) w)"
  by (simp add: try_send_message_def)

lemma try_send_message_caught:
  "notify e uid = Some err \<Longrightarrow> caught err \<Longrightarrow>
   try_send_message e uid message_text warning w = Inr (emit (LogWarning warning) w)"
  by (simp add: try_send_message_def)

lemma try_send_message_raised:
  "notify e uid = Some err \<Longrightarrow> \<not> caught err \<Longrightarrow>
   try_send_message e uid message_text warning w = Inl (TelegramError err)"
  by (simp add: try_send_message_def)

lemma try_send_message_notified:
  "notified e uid \<Longrightarrow>
   try_send_message e uid message_text warning w
   = Inr (emit (notification e uid message_text warning) w)"
  by (auto simp: try_send_message_def notified_def notification_def split: option.splits)

lemma approve_yes_promotes:
  assumes "pending w (chat_id info, message_id info) = Some p"
    and "n_votes e \<le> vote_count (fst (set_admin_vote p (sender_id info) True))"
    and "channel_message e = Some cm"
    and "notified e (user_id p)"
    and "show_admins_votes e (chat_id info, message_id info) True = None"
  shows "fst (approve_yes_callback e info arg w) = Inr (None, None, None)"
    and "pending (snd (approve_yes_callback e info arg w)) (chat_id info, message_id info) = None"
    and "published (snd (approve_yes_callback e info arg w)) cm = Some \<lparr>user_votes = []\<rparr>"
    and "new_events w (snd (approve_yes_callback e info arg w))
         = [AnswerCallbackQuery (query_id info) None,
            SendPostTo Channel cm,
            notification e (user_id p)
              ''Il tuo ultimo post e stato pubblicato su @Spotted_DMI''
              ''Notifying the user on approve_yes'',
            ShowAdminsVotes (chat_id info, message_id info) True,
            DeletePost (chat_id info, message_id info)]"
    and "stores (snd (approve_yes_callback e info arg w))
         = ((pending w)((chat_id info, message_id info) := None),
            (published w)(cm \<mapsto> \<lparr>user_votes = []\<rparr>),
            reports w, credited w,
            (if comments e then (bot_data w)(cm \<mapsto> user_id p) else bot_data w),
            user_data w)"
  using assms
  by (simp_all add: approve_yes_callback_def from_group_def Let_def split_beta send_post_to_def
      try_send_message_notified delete_post_def emit_def new_events_def stores_def)

lemma approve_yes_interrupted:
  assumes "pending w (chat_id info, message_id info) = Some p"
    and "n_votes e \<le> vote_count (fst (set_admin_vote p (sender_id info) True))"
    and "channel_message e = Some cm"
    and "notify e (user_id p) = Some err"
    and "\<not> caught err"
  shows "fst (approve_yes_callback e info arg w) = Inl (TelegramError err)"
    and "pending (snd (approve_yes_callback e info arg w)) (chat_id info, message_id info)
         = Some (snd (set_admin_vote p (sender_id info) True))"
    and "published (snd (approve_yes_callback e info arg w)) cm = Some \<lparr>user_votes = []\<rparr>"
    and "new_events w (snd (approve_yes_callback e info arg w))
         = [AnswerCallbackQuery (query_id info) None, SendPostTo Channel cm]"
  using assms
  by (simp_all add: approve_yes_callback_def from_group_def Let_def split_beta send_post_to_def
      try_send_message_raised emit_def new_events_def)

lemma approve_no_rejects:
  assumes "pending w (chat_id info, message_id info) = Some p"
    and "n_votes e \<le> vote_count (fst (set_admin_vote p (sender_id info) False))"
    and "notified e (user_id p)"
    and "show_admins_votes e (chat_id info, message_id info) False = None"
  shows "fst (approve_no_callback e info arg w) = Inr (None, None, None)"
    and "stores (snd (approve_no_callback e info arg w))
         = ((pending w)((chat_id info, message_id info) := None), published w,
            reports w, credited w, bot_data w, user_data w)"
    and "new_events w (snd (approve_no_callback e info arg w))
         = [AnswerCallbackQuery (query_id info) None,
            notification e (user_id p)
              ''Il tuo ultimo post e stato rifiutato Puoi controllare le regole con /rules''
              ''Notifying the user on approve_no'',
            ShowAdminsVotes (chat_id info, message_id info) False,
            DeletePost (chat_id info, message_id info)]"
    and "pending (snd (approve_no_callback e info arg w)) (chat_id info, message_id info) = None"
  using assms
  by (simp_all add: approve_no_callback_def from_group_def Let_def split_beta
      try_send_message_notified delete_post_def emit_def new_events_def stores_def)

lemma approve_yes_after:
  assumes "pending w (chat_id info, message_id info) = Some p"
  shows "pending (snd (approve_yes_callback e info arg w)) (chat_id info, message_id info) = None
         \<or> pending (snd (approve_yes_callback e info arg w)) (chat_id info, message_id info)
             = Some (snd (set_admin_vote p (sender_id info) True))"
  using assms
  by (simp add: approve_yes_callback_def from_group_def Let_def split_beta send_post_to_def
      try_send_message_def delete_post_def emit_def split: option.splits)

lemma approve_no_after:
  assumes "pending w (chat_id info, message_id info) = Some p"
  shows "pending (snd (approve_no_callback e info arg w)) (chat_id info, message_id info) = None
         \<or> pending (snd (approve_no_callback e info arg w)) (chat_id info, message_id info)
             = Some (snd (set_admin_vote p (sender_id info) False))"
  using assms
  by (simp add: approve_no_callback_def from_group_def Let_def split_beta
      try_send_message_def delete_post_def emit_def split: option.splits)

lemma approve_yes_below:
  assumes "pending w (chat_id info, message_id info) = Some p"
    and "vote_count (fst (set_admin_vote p (sender_id info) True)) < n_votes e"
    and "vote_count (fst (set_admin_vote p (sender_id info) True)) \<noteq> - 1"
  shows "approve_yes_callback e info arg w
         = (Inr (None,
                 Some (update_approve_kb (inline_keyboard info)
                         (snd (set_admin_vote p (sender_id info) True))
                         (Some (vote_count (fst (set_admin_vote p (sender_id info) True)))) None),
                 None),
            (emit (AnswerCallbackQuery (query_id info) None) w)
              \<lparr>pending := (pending w)((chat_id info, message_id info)
                            \<mapsto> snd (set_admin_vote p (sender_id info) True))\<rparr>)"
  using assms
  by (simp add: approve_yes_callback_def from_group_def Let_def split_beta emit_def)

lemma approve_no_below:
  assumes "pending w (chat_id info, message_id info) = Some p"
    and "vote_count (fst (set_admin_vote p (sender_id info) False)) < n_votes e"
    and "vote_count (fst (set_admin_vote p (sender_id info) False)) \<noteq> - 1"
  shows "approve_no_callback e info arg w
         = (Inr (None,
                 Some (update_approve_kb (inline_keyboard info)
                         (snd (set_admin_vote p (sender_id info) False)) None
                         (Some (vote_count (fst (set_admin_vote p (sender_id info) False))))),
                 None),
            (emit (AnswerCallbackQuery (query_id info) None) w)
              \<lparr>pending := (pending w)((chat_id info, message_id info)
                            \<mapsto> snd (set_admin_vote p (sender_id info) False))\<rparr>)"
  using assms
  by (simp add: approve_no_callback_def from_group_def Let_def split_beta emit_def)


lemma approve_yes_stays:
  assumes "pending w (chat_id info, message_id info) = Some p"
    and "\<not> n_votes e \<le> vote_count (fst (set_admin_vote p (sender_id info) True))"
  shows "pending (snd (approve_yes_callback e info arg w)) (chat_id info, message_id info)
         = Some (snd (set_admin_vote p (sender_id info) True))"
  using assms
  by (simp add: approve_yes_callback_def from_group_def Let_def split_beta emit_def)

lemma approve_no_stays:
  assumes "pending w (chat_id info, message_id info) = Some p"
    and "\<not> n_votes e \<le> vote_count (fst (set_admin_vote p (sender_id info) False))"
  shows "pending (snd (approve_no_callback e info arg w)) (chat_id info, message_id info)
         = Some (snd (set_admin_vote p (sender_id info) False))"
  using assms
  by (simp add: approve_no_callback_def from_group_def Let_def split_beta emit_def)

lemma new_events_emit: "new_events w (emit ev w) = [ev]"
  by (simp add: new_events_def emit_def)

lemma new_events_same: "new_events w w = []"
  by (simp add: new_events_def)

lemma stores_emit: "stores (emit ev w) = stores w"
  by (simp add: stores_def emit_def)

lemma approve_yes_second_call:
  assumes "1 \<le> n_votes e"
  shows "fst (approve_yes_callback e info arg (snd (approve_yes_callback e info arg w)))
           = Inr (None, None, None)
         \<and> stores (snd (approve_yes_callback e info arg (snd (approve_yes_callback e info arg w))))
           = stores (snd (approve_yes_callback e info arg w))
         \<and> (\<forall>ev \<in> set (new_events (snd (approve_yes_callback e info arg w))
                           (snd (approve_yes_callback e info arg
                                   (snd (approve_yes_callback e info arg w))))).
               ev = AnswerCallbackQuery (query_id info) None)"
proof (cases "pending (snd (approve_yes_callback e info arg w)) (chat_id info, message_id info)")
  case None
  then show ?thesis
    by (simp add: approve_yes_not_found new_events_same)
next
  case (Some p1)
  have "map_of (admin_votes p1) (sender_id info) = Some True"
  proof (cases "pending w (chat_id info, message_id info)")
    case None
    with Some show ?thesis
      by (simp add: approve_yes_not_found)
  next
    case found: (Some p)
    from approve_yes_after [OF found, of e arg] Some
    have "p1 = snd (set_admin_vote p (sender_id info) True)"
      by simp
    then show ?thesis
      by (simp add: set_admin_vote_holds)
  qed
  from approve_yes_duplicate [OF Some this assms, of arg] show ?thesis
    by (simp add: new_events_emit stores_emit)
qed

lemma approve_no_second_call:
  assumes "1 \<le> n_votes e"
  shows "fst (approve_no_callback e info arg (snd (approve_no_callback e info arg w)))
           = Inr (None, None, None)
         \<and> stores (snd (approve_no_callback e info arg (snd (approve_no_callback e info arg w))))
           = stores (snd (approve_no_callback e info arg w))
         \<and> (\<forall>ev \<in> set (new_events (snd (approve_no_callback e info arg w))
                           (snd (approve_no_callback e info arg
                                   (snd (approve_no_callback e info arg w))))).
               ev = AnswerCallbackQuery (query_id info) None)"
proof (cases "pending (snd (approve_no_callback e info arg w)) (chat_id info, message_id info)")
  case None
  then show ?thesis
    by (simp add: approve_no_not_found new_events_same)
next
  case (Some p1)
  have "map_of (admin_votes p1) (sender_id info) = Some False"
  proof (cases "pending w (chat_id info, message_id info)")
    case None
    with Some show ?thesis
      by (simp add: approve_no_not_found)
  next
    case found: (Some p)
    from approve_no_after [OF found, of e arg] Some
    have "p1 = snd (set_admin_vote p (sender_id info) False)"
      by simp
    then show ?thesis
      by (simp add: set_admin_vote_holds)
  qed
  from approve_no_duplicate [OF Some this assms, of arg] show ?thesis
    by (simp add: new_events_emit stores_emit)
qed

text \<open>
  Claim C3. A second \<^verbatim>\<open>set_admin_vote\<close> by the same admin with the same vote, right
  after the first, reports \<^verbatim>\<open>no_change\<close>, returns the count the first call returned,
  and leaves the record and its count as they were. In the handlers, with a quorum of
  at least one, a second click returns \<^verbatim>\<open>(None, None, None)\<close>, changes no store (no
  deletion, no publication) and calls nothing but \<^verbatim>\<open>answerCallbackQuery\<close>: no edit of
  the message and no message to the submitter.
\<close>

theorem idempotent_toggle:
  "(let ((count1, no_change1), p1) = set_admin_vote p a v;
        ((count2, no_change2), p2) = set_admin_vote p1 a v
    in no_change2 \<and> count2 = count1 \<and> p2 = p1 \<and> get_votes v p2 = get_votes v p1)
   \<and> (1 \<le> n_votes e \<longrightarrow>
        (let w1 = snd (approve_yes_callback e info arg w);
             out2 = approve_yes_callback e info arg w1
         in fst out2 = Inr (None, None, None)
            \<and> stores (snd out2) = stores w1
            \<and> (\<forall>ev \<in> set (new_events w1 (snd out2)). ev = AnswerCallbackQuery (query_id info) None))
        \<and> (let w1 = snd (approve_no_callback e info arg w);
               out2 = approve_no_callback e info arg w1
           in fst out2 = Inr (None, None, None)
              \<and> stores (snd out2) = stores w1
              \<and> (\<forall>ev \<in> set (new_events w1 (snd out2)). ev = AnswerCallbackQuery (query_id info) None)))"
proof (intro conjI impI)
  show "let ((count1, no_change1), p1) = set_admin_vote p a v;
            ((count2, no_change2), p2) = set_admin_vote p1 a v
        in no_change2 \<and> count2 = count1 \<and> p2 = p1 \<and> get_votes v p2 = get_votes v p1"
    using set_admin_vote_twice [of p a v]
    by (simp add: split_beta)
next
  assume q: "1 \<le> n_votes e"
  show "let w1 = snd (approve_yes_callback e info arg w);
            out2 = approve_yes_callback e info arg w1
        in fst out2 = Inr (None, None, None)
           \<and> stores (snd out2) = stores w1
           \<and> (\<forall>ev \<in> set (new_events w1 (snd out2)). ev = AnswerCallbackQuery (query_id info) None)"
    unfolding Let_def by (rule approve_yes_second_call [OF q])
  show "let w1 = snd (approve_no_callback e info arg w);
            out2 = approve_no_callback e info arg w1
        in fst out2 = Inr (None, None, None)
           \<and> stores (snd out2) = stores w1
           \<and> (\<forall>ev \<in> set (new_events w1 (snd out2)). ev = AnswerCallbackQuery (query_id info) None)"
    unfolding Let_def by (rule approve_no_second_call [OF q])
qed


theorem idempotent_toggle_witness:
  "1 \<le> n_votes (example_env\<lparr>n_votes := 3\<rparr>)
   \<and> fst (approve_yes_callback (example_env\<lparr>n_votes := 3\<rparr>)
            (example_info (- 5) 40 ''meme_approve_yes,'' 2) []
            (snd (approve_yes_callback (example_env\<lparr>n_votes := 3\<rparr>)
                    (example_info (- 5) 40 ''meme_approve_yes,'' 2) [] example_world)))
       = Inr (None, None, None)
   \<and> stores (snd (approve_yes_callback (example_env\<lparr>n_votes := 3\<rparr>)
                    (example_info (- 5) 40 ''meme_approve_yes,'' 2) []
                    (snd (approve_yes_callback (example_env\<lparr>n_votes := 3\<rparr>)
                            (example_info (- 5) 40 ''meme_approve_yes,'' 2) [] example_world))))
       = stores (snd (approve_yes_callback (example_env\<lparr>n_votes := 3\<rparr>)
                        (example_info (- 5) 40 ''meme_approve_yes,'' 2) [] example_world))
   \<and> set_admin_vote \<lparr>user_id = 9, admin_votes = [(1, True)]\<rparr> 2 True
       = ((2, False), \<lparr>user_id = 9, admin_votes = [(1, True), (2, True)]\<rparr>)
   \<and> set_admin_vote \<lparr>user_id = 9, admin_votes = [(1, True), (2, True)]\<rparr> 2 True
       = ((2, True), \<lparr>user_id = 9, admin_votes = [(1, True), (2, True)]\<rparr>)"
proof -
  let ?e = "example_env\<lparr>n_votes := 3\<rparr>"
  let ?i = "example_info (- 5) 40 ''meme_approve_yes,'' 2"
  have q: "1 \<le> n_votes ?e"
    by (simp add: example_env_def)
  have first: "set_admin_vote \<lparr>user_id = 9, admin_votes = [(1, True)]\<rparr> 2 True
       = ((2, False), \<lparr>user_id = 9, admin_votes = [(1, True), (2, True)]\<rparr>)"
    by (simp add: set_admin_vote_def get_votes_def Let_def)
  note pure = idempotent_toggle [of "\<lparr>user_id = 9, admin_votes = [(1, True)]\<rparr>" 2 True ?e ?i "[]"
      example_world, THEN conjunct1]
  note handler = idempotent_toggle [of "\<lparr>user_id = 9, admin_votes = [(1, True)]\<rparr>" 2 True ?e ?i "[]"
      example_world, THEN conjunct2, THEN mp, OF q, THEN conjunct1, unfolded Let_def]
  from pure have second: "set_admin_vote \<lparr>user_id = 9, admin_votes = [(1, True), (2, True)]\<rparr> 2 True
       = ((2, True), \<lparr>user_id = 9, admin_votes = [(1, True), (2, True)]\<rparr>)"
    by (simp add: first split_beta prod_eq_iff)
  from q handler [THEN conjunct1] handler [THEN conjunct2, THEN conjunct1] first second
  show ?thesis
    by (intro conjI)
qed

lemma approve_yes_trace:
  "take (length (trace w)) (trace (snd (approve_yes_callback e info arg w))) = trace w"
  by (simp add: approve_yes_callback_def Let_def split_beta send_post_to_def
      try_send_message_def delete_post_def emit_def split: option.splits)

lemma approve_yes_trace_grows:
  "trace (snd (approve_yes_callback e info arg w))
   = trace w @ new_events w (snd (approve_yes_callback e info arg w))"
  unfolding new_events_def
  using append_take_drop_id [of "length (trace w)" "trace (snd (approve_yes_callback e info arg w))"]
  by (simp add: approve_yes_trace)


text \<open>
  Claim C2 says that, once the count reaches the quorum, the pending post is deleted
  and the published post created in one transaction, and the handler returns. In
  \<^verbatim>\<open>approve_yes_callback\<close> the publication and the deletion are two calls with the
  notification between them, and only \<^verbatim>\<open>BadRequest\<close> and \<^verbatim>\<open>Unauthorized\<close> are caught
  there: when the notification times out, the handler raises with the post published
  and still pending, and the next approval publishes it a second time.
\<close>

theorem threshold_not_atomic_counterexample:
  "pending example_world (- 5, 40) = Some \<lparr>user_id = 9, admin_votes = [(1, True)]\<rparr>
   \<and> n_votes example_env
       \<le> vote_count (fst (set_admin_vote \<lparr>user_id = 9, admin_votes = [(1, True)]\<rparr> 2 True))
   \<and> fst (approve_yes_callback (example_env\<lparr>notify := \<lambda>u. Some TimedOut\<rparr>)
            (example_info (- 5) 40 ''meme_approve_yes,'' 2) [] example_world)
       = Inl (TelegramError TimedOut)
   \<and> published (snd (approve_yes_callback (example_env\<lparr>notify := \<lambda>u. Some TimedOut\<rparr>)
                        (example_info (- 5) 40 ''meme_approve_yes,'' 2) [] example_world))
        (- 100, 8) = Some \<lparr>user_votes = []\<rparr>
   \<and> pending (snd (approve_yes_callback (example_env\<lparr>notify := \<lambda>u. Some TimedOut\<rparr>)
                      (example_info (- 5) 40 ''meme_approve_yes,'' 2) [] example_world))
        (- 5, 40) = Some \<lparr>user_id = 9, admin_votes = [(1, True), (2, True)]\<rparr>
   \<and> count_list
        (new_events example_world
           (snd (approve_yes_callback example_env
                   (example_info (- 5) 40 ''meme_approve_yes,'' 3) []
                   (snd (approve_yes_callback (example_env\<lparr>notify := \<lambda>u. Some TimedOut\<rparr>)
                           (example_info (- 5) 40 ''meme_approve_yes,'' 2) [] example_world)))))
        (SendPostTo Channel (- 100, 8)) = 2"
proof -
  let ?p = "\<lparr>user_id = 9, admin_votes = [(1, True)]\<rparr>"
  let ?p2 = "\<lparr>user_id = 9, admin_votes = [(1, True), (2, True)]\<rparr>"
  let ?e = "example_env\<lparr>notify := \<lambda>u. Some TimedOut\<rparr>"
  let ?i = "example_info (- 5) 40 ''meme_approve_yes,'' 2"
  let ?j = "example_info (- 5) 40 ''meme_approve_yes,'' 3"
  let ?w1 = "snd (approve_yes_callback ?e ?i [] example_world)"
  have found: "pending example_world (- 5, 40) = Some ?p"
    by (simp add: example_world_def)
  have found': "pending example_world (chat_id ?i, message_id ?i) = Some ?p"
    by (simp add: example_world_def example_info_def)
  have second: "set_admin_vote ?p 2 True = ((2, False), ?p2)"
    by (simp add: set_admin_vote_def get_votes_def Let_def)
  have third: "set_admin_vote ?p2 3 True
               = ((3, False), \<lparr>user_id = 9, admin_votes = [(1, True), (2, True), (3, True)]\<rparr>)"
    by (simp add: set_admin_vote_def get_votes_def Let_def)
  have q: "n_votes example_env \<le> vote_count (fst (set_admin_vote ?p 2 True))"
    by (simp add: second vote_count_def example_env_def)
  have q': "n_votes ?e \<le> vote_count (fst (set_admin_vote ?p (sender_id ?i) True))"
    by (simp add: second vote_count_def example_env_def example_info_def)
  have ch: "channel_message ?e = Some (- 100, 8)"
    by (simp add: example_env_def)
  have n: "notify ?e (user_id ?p) = Some TimedOut"
    by simp
  have u: "\<not> caught TimedOut"
    by simp
  note first = approve_yes_interrupted [OF found' q' ch n u, of "[]"]
  have raised: "fst (approve_yes_callback ?e ?i [] example_world) = Inl (TelegramError TimedOut)"
    by (rule first(1))
  have still: "pending ?w1 (- 5, 40) = Some ?p2"
    using first(2) by (simp add: second example_info_def)
  have created: "published ?w1 (- 100, 8) = Some \<lparr>user_votes = []\<rparr>"
    by (rule first(3))
  have t1: "trace ?w1 = [AnswerCallbackQuery 1 None, SendPostTo Channel (- 100, 8)]"
    using first(4) by (simp add: new_events_def example_world_def example_info_def)
  have still': "pending ?w1 (chat_id ?j, message_id ?j) = Some ?p2"
    using still by (simp add: example_info_def)
  have q3: "n_votes example_env \<le> vote_count (fst (set_admin_vote ?p2 (sender_id ?j) True))"
    by (simp add: third vote_count_def example_env_def example_info_def)
  have ch3: "channel_message example_env = Some (- 100, 8)"
    by (simp add: example_env_def)
  have n3: "notified example_env (user_id ?p2)"
    by (simp add: notified_def example_env_def)
  have s3: "show_admins_votes example_env (chat_id ?j, message_id ?j) True = None"
    by (simp add: example_env_def)
  have ids: "query_id ?j = 1" "chat_id ?j = - 5" "message_id ?j = 40" "user_id ?p2 = 9"
    by (simp_all add: example_info_def)
  have sent: "notification example_env 9
                ''Il tuo ultimo post e stato pubblicato su @Spotted_DMI''
                ''Notifying the user on approve_yes''
              = SendMessage 9 ''Il tuo ultimo post e stato pubblicato su @Spotted_DMI''"
    by (simp add: notification_def example_env_def)
  have ev2: "new_events ?w1 (snd (approve_yes_callback example_env ?j [] ?w1))
        = [AnswerCallbackQuery 1 None,
           SendPostTo Channel (- 100, 8),
           SendMessage 9 ''Il tuo ultimo post e stato pubblicato su @Spotted_DMI'',
           ShowAdminsVotes (- 5, 40) True,
           DeletePost (- 5, 40)]"
    using approve_yes_promotes(4) [OF still' q3 ch3 n3 s3, of "[]"]
    by (simp only: ids sent)
  have t2: "trace (snd (approve_yes_callback example_env ?j [] ?w1))
        = [AnswerCallbackQuery 1 None, SendPostTo Channel (- 100, 8),
           AnswerCallbackQuery 1 None, SendPostTo Channel (- 100, 8),
           SendMessage 9 ''Il tuo ultimo post e stato pubblicato su @Spotted_DMI'',
           ShowAdminsVotes (- 5, 40) True, DeletePost (- 5, 40)]"
    using approve_yes_trace_grows [of example_env ?j "[]" ?w1]
    by (simp only: t1 ev2 append.simps)
  have t0: "trace example_world = []"
    by (simp add: example_world_def)
  have twice: "count_list (new_events example_world (snd (approve_yes_callback example_env ?j [] ?w1)))
                 (SendPostTo Channel (- 100, 8)) = 2"
    by (simp add: new_events_def t2 t0)
  from found q raised created still twice show ?thesis
    by (intro conjI)
qed

text \<open>
  Claim C2, amended. On a pending post that is in the store, let \<open>n\<close> be what the handler
  reads from \<^verbatim>\<open>set_admin_vote\<close>. When \<open>n\<close> reaches the configured \<^verbatim>\<open>n_votes\<close> and the
  calls of the transition return (the post is sent to the channel, the notification is
  delivered or fails with \<^verbatim>\<open>BadRequest\<close> or \<^verbatim>\<open>Unauthorized\<close>, \<^verbatim>\<open>show_admins_votes\<close>
  returns), the handler returns \<^verbatim>\<open>(None, None, None)\<close> (no keyboard), the pending post
  is gone from the store, on the approve path the published post is in the store, and
  the calls of the run hold the deletion exactly once and, on the approve path, the
  publication exactly once. The publication and the deletion are separate calls, not
  one transaction: when the notification raises another error, the handler raises
  after the publication and before the deletion. When \<open>n\<close> is below \<^verbatim>\<open>n_votes\<close> and is
  not \<open>-1\<close> (the vote changed), the handler returns the keyboard built from the new
  count, the post stays pending with the new vote, and nothing is published or deleted.
\<close>

theorem threshold_transition:
  assumes "pending w (chat_id info, message_id info) = Some p"
  shows
    "(let n = vote_count (fst (set_admin_vote p (sender_id info) True));
          p' = snd (set_admin_vote p (sender_id info) True);
          out = approve_yes_callback e info arg w
      in (n_votes e \<le> n \<and> channel_message e = Some cm \<and> notified e (user_id p)
          \<and> show_admins_votes e (chat_id info, message_id info) True = None \<longrightarrow>
            fst out = Inr (None, None, None)
            \<and> stores (snd out)
                = ((pending w)((chat_id info, message_id info) := None),
                   (published w)(cm \<mapsto> \<lparr>user_votes = []\<rparr>),
                   reports w, credited w,
                   (if comments e then (bot_data w)(cm \<mapsto> user_id p) else bot_data w),
                   user_data w)
            \<and> new_events w (snd out)
                = [AnswerCallbackQuery (query_id info) None,
                   SendPostTo Channel cm,
                   notification e (user_id p)
                     ''Il tuo ultimo post e stato pubblicato su @Spotted_DMI''
                     ''Notifying the user on approve_yes'',
                   ShowAdminsVotes (chat_id info, message_id info) True,
                   DeletePost (chat_id info, message_id info)]
            \<and> count_list (new_events w (snd out)) (DeletePost (chat_id info, message_id info)) = 1
            \<and> count_list (new_events w (snd out)) (SendPostTo Channel cm) = 1)
         \<and> (n_votes e \<le> n \<and> channel_message e = Some cm
            \<and> notify e (user_id p) = Some err \<and> \<not> caught err \<longrightarrow>
            fst out = Inl (TelegramError err)
            \<and> published (snd out) cm = Some \<lparr>user_votes = []\<rparr>
            \<and> pending (snd out) (chat_id info, message_id info) = Some p'
            \<and> new_events w (snd out)
                = [AnswerCallbackQuery (query_id info) None, SendPostTo Channel cm])
         \<and> (n < n_votes e \<and> n \<noteq> - 1 \<longrightarrow>
            fst out = Inr (None,
                           Some (update_approve_kb (inline_keyboard info) p' (Some n) None),
                           None)
            \<and> stores (snd out)
                = ((pending w)((chat_id info, message_id info) \<mapsto> p'), published w,
                   reports w, credited w, bot_data w, user_data w)
            \<and> new_events w (snd out) = [AnswerCallbackQuery (query_id info) None]))
     \<and> (let n = vote_count (fst (set_admin_vote p (sender_id info) False));
            p' = snd (set_admin_vote p (sender_id info) False);
            out = approve_no_callback e info arg w
        in (n_votes e \<le> n \<and> notified e (user_id p)
            \<and> show_admins_votes e (chat_id info, message_id info) False = None \<longrightarrow>
              fst out = Inr (None, None, None)
              \<and> stores (snd out)
                  = ((pending w)((chat_id info, message_id info) := None), published w,
                     reports w, credited w, bot_data w, user_data w)
              \<and> new_events w (snd out)
                  = [AnswerCallbackQuery (query_id info) None,
                     notification e (user_id p)
                       ''Il tuo ultimo post e stato rifiutato Puoi controllare le regole con /rules''
                       ''Notifying the user on approve_no'',
                     ShowAdminsVotes (chat_id info, message_id info) False,
                     DeletePost (chat_id info, message_id info)]
              \<and> count_list (new_events w (snd out)) (DeletePost (chat_id info, message_id info)) = 1)
           \<and> (n < n_votes e \<and> n \<noteq> - 1 \<longrightarrow>
              fst out = Inr (None,
                             Some (update_approve_kb (inline_keyboard info) p' None (Some n)),
                             None)
              \<and> stores (snd out)
                  = ((pending w)((chat_id info, message_id info) \<mapsto> p'), published w,
                     reports w, credited w, bot_data w, user_data w)
              \<and> new_events w (snd out) = [AnswerCallbackQuery (query_id info) None]))"
  unfolding Let_def
proof (intro conjI impI)
  assume a: "n_votes e \<le> vote_count (fst (set_admin_vote p (sender_id info) True))
             \<and> channel_message e = Some cm \<and> notified e (user_id p)
             \<and> show_admins_votes e (chat_id info, message_id info) True = None"
  then have q: "n_votes e \<le> vote_count (fst (set_admin_vote p (sender_id info) True))"
    and ch: "channel_message e = Some cm" and n: "notified e (user_id p)"
    and sh: "show_admins_votes e (chat_id info, message_id info) True = None"
    by simp_all
  note run = approve_yes_promotes [OF assms q ch n sh, of arg]
  show "fst (approve_yes_callback e info arg w) = Inr (None, None, None)"
    by (rule run(1))
  show "stores (snd (approve_yes_callback e info arg w))
        = ((pending w)((chat_id info, message_id info) := None),
           (published w)(cm \<mapsto> \<lparr>user_votes = []\<rparr>),
           reports w, credited w,
           (if comments e then (bot_data w)(cm \<mapsto> user_id p) else bot_data w),
           user_data w)"
    by (rule run(5))
  show "new_events w (snd (approve_yes_callback e info arg w))
        = [AnswerCallbackQuery (query_id info) None,
           SendPostTo Channel cm,
           notification e (user_id p)
             ''Il tuo ultimo post e stato pubblicato su @Spotted_DMI''
             ''Notifying the user on approve_yes'',
           ShowAdminsVotes (chat_id info, message_id info) True,
           DeletePost (chat_id info, message_id info)]"
    by (rule run(4))
  show "count_list (new_events w (snd (approve_yes_callback e info arg w)))
          (DeletePost (chat_id info, message_id info)) = 1"
    by (simp add: run(4) notification_def split: option.splits)
  show "count_list (new_events w (snd (approve_yes_callback e info arg w)))
          (SendPostTo Channel cm) = 1"
    by (simp add: run(4) notification_def split: option.splits)
next
  assume a: "n_votes e \<le> vote_count (fst (set_admin_vote p (sender_id info) True))
             \<and> channel_message e = Some cm
             \<and> notify e (user_id p) = Some err \<and> \<not> caught err"
  then have q: "n_votes e \<le> vote_count (fst (set_admin_vote p (sender_id info) True))"
    and ch: "channel_message e = Some cm" and n: "notify e (user_id p) = Some err"
    and u: "\<not> caught err"
    by simp_all
  note run = approve_yes_interrupted [OF assms q ch n u, of arg]
  show "fst (approve_yes_callback e info arg w) = Inl (TelegramError err)"
    by (rule run(1))
  show "published (snd (approve_yes_callback e info arg w)) cm = Some \<lparr>user_votes = []\<rparr>"
    by (rule run(3))
  show "pending (snd (approve_yes_callback e info arg w)) (chat_id info, message_id info)
        = Some (snd (set_admin_vote p (sender_id info) True))"
    by (rule run(2))
  show "new_events w (snd (approve_yes_callback e info arg w))
        = [AnswerCallbackQuery (query_id info) None, SendPostTo Channel cm]"
    by (rule run(4))
next
  assume "vote_count (fst (set_admin_vote p (sender_id info) True)) < n_votes e
          \<and> vote_count (fst (set_admin_vote p (sender_id info) True)) \<noteq> - 1"
  then have b: "approve_yes_callback e info arg w
       = (Inr (None,
               Some (update_approve_kb (inline_keyboard info)
                       (snd (set_admin_vote p (sender_id info) True))
                       (Some (vote_count (fst (set_admin_vote p (sender_id info) True)))) None),
               None),
          (emit (AnswerCallbackQuery (query_id info) None) w)
            \<lparr>pending := (pending w)((chat_id info, message_id info)
                          \<mapsto> snd (set_admin_vote p (sender_id info) True))\<rparr>)"
    using approve_yes_below [OF assms] by blast
  show "fst (approve_yes_callback e info arg w)
        = Inr (None,
               Some (update_approve_kb (inline_keyboard info)
                       (snd (set_admin_vote p (sender_id info) True))
                       (Some (vote_count (fst (set_admin_vote p (sender_id info) True)))) None),
               None)"
    by (simp add: b)
  show "stores (snd (approve_yes_callback e info arg w))
        = ((pending w)((chat_id info, message_id info)
                        \<mapsto> snd (set_admin_vote p (sender_id info) True)),
           published w, reports w, credited w, bot_data w, user_data w)"
    by (simp add: b stores_def emit_def)
  show "new_events w (snd (approve_yes_callback e info arg w))
        = [AnswerCallbackQuery (query_id info) None]"
    by (simp add: b new_events_def emit_def)
next
  assume a: "n_votes e \<le> vote_count (fst (set_admin_vote p (sender_id info) False))
             \<and> notified e (user_id p)
             \<and> show_admins_votes e (chat_id info, message_id info) False = None"
  then have q: "n_votes e \<le> vote_count (fst (set_admin_vote p (sender_id info) False))"
    and n: "notified e (user_id p)"
    and sh: "show_admins_votes e (chat_id info, message_id info) False = None"
    by simp_all
  note run = approve_no_rejects [OF assms q n sh, of arg]
  show "fst (approve_no_callback e info arg w) = Inr (None, None, None)"
    by (rule run(1))
  show "stores (snd (approve_no_callback e info arg w))
        = ((pending w)((chat_id info, message_id info) := None), published w,
           reports w, credited w, bot_data w, user_data w)"
    by (rule run(2))
  show "new_events w (snd (approve_no_callback e info arg w))
        = [AnswerCallbackQuery (query_id info) None,
           notification e (user_id p)
             ''Il tuo ultimo post e stato rifiutato Puoi controllare le regole con /rules''
             ''Notifying the user on approve_no'',
           ShowAdminsVotes (chat_id info, message_id info) False,
           DeletePost (chat_id info, message_id info)]"
    by (rule run(3))
  show "count_list (new_events w (snd (approve_no_callback e info arg w)))
          (DeletePost (chat_id info, message_id info)) = 1"
    by (simp add: run(3) notification_def split: option.splits)
next
  assume "vote_count (fst (set_admin_vote p (sender_id info) False)) < n_votes e
          \<and> vote_count (fst (set_admin_vote p (sender_id info) False)) \<noteq> - 1"
  then have b: "approve_no_callback e info arg w
       = (Inr (None,
               Some (update_approve_kb (inline_keyboard info)
                       (snd (set_admin_vote p (sender_id info) False)) None
                       (Some (vote_count (fst (set_admin_vote p (sender_id info) False))))),
               None),
          (emit (AnswerCallbackQuery (query_id info) None) w)
            \<lparr>pending := (pending w)((chat_id info, message_id info)
                          \<mapsto> snd (set_admin_vote p (sender_id info) False))\<rparr>)"
    using approve_no_below [OF assms] by blast
  show "fst (approve_no_callback e info arg w)
        = Inr (None,
               Some (update_approve_kb (inline_keyboard info)
                       (snd (set_admin_vote p (sender_id info) False)) None
                       (Some (vote_count (fst (set_admin_vote p (sender_id info) False))))),
               None)"
    by (simp add: b)
  show "stores (snd (approve_no_callback e info arg w))
        = ((pending w)((chat_id info, message_id info)
                        \<mapsto> snd (set_admin_vote p (sender_id info) False)),
           published w, reports w, credited w, bot_data w, user_data w)"
    by (simp add: b stores_def emit_def)
  show "new_events w (snd (approve_no_callback e info arg w))
        = [AnswerCallbackQuery (query_id info) None]"
    by (simp add: b new_events_def emit_def)
qed

theorem threshold_transition_witness:
  "pending example_world (- 5, 40) = Some \<lparr>user_id = 9, admin_votes = [(1, True)]\<rparr>
   \<and> n_votes example_env
       \<le> vote_count (fst (set_admin_vote \<lparr>user_id = 9, admin_votes = [(1, True)]\<rparr> 2 True))
   \<and> channel_message example_env = Some (- 100, 8)
   \<and> notified example_env 9
   \<and> show_admins_votes example_env (- 5, 40) True = None
   \<and> fst (approve_yes_callback example_env (example_info (- 5) 40 ''meme_approve_yes,'' 2) []
            example_world) = Inr (None, None, None)
   \<and> pending (snd (approve_yes_callback example_env
                      (example_info (- 5) 40 ''meme_approve_yes,'' 2) [] example_world))
        (- 5, 40) = None
   \<and> published (snd (approve_yes_callback example_env
                        (example_info (- 5) 40 ''meme_approve_yes,'' 2) [] example_world))
        (- 100, 8) = Some \<lparr>user_votes = []\<rparr>
   \<and> count_list (new_events example_world
                   (snd (approve_yes_callback example_env
                           (example_info (- 5) 40 ''meme_approve_yes,'' 2) [] example_world)))
        (DeletePost (- 5, 40)) = 1
   \<and> notify (example_env\<lparr>notify := \<lambda>u. Some NetworkError\<rparr>) 9 = Some NetworkError
   \<and> \<not> caught NetworkError
   \<and> fst (approve_yes_callback (example_env\<lparr>notify := \<lambda>u. Some NetworkError\<rparr>)
            (example_info (- 5) 40 ''meme_approve_yes,'' 2) [] example_world)
       = Inl (TelegramError NetworkError)
   \<and> vote_count (fst (set_admin_vote \<lparr>user_id = 9, admin_votes = [(1, True)]\<rparr> 2 True))
       < n_votes (example_env\<lparr>n_votes := 3\<rparr>)
   \<and> fst (approve_yes_callback (example_env\<lparr>n_votes := 3\<rparr>)
            (example_info (- 5) 40 ''meme_approve_yes,'' 2) [] example_world)
       = Inr (None,
              Some (update_approve_kb [] \<lparr>user_id = 9, admin_votes = [(1, True), (2, True)]\<rparr>
                      (Some 2) None),
              None)
   \<and> n_votes (example_env\<lparr>n_votes := 1\<rparr>)
       \<le> vote_count (fst (set_admin_vote \<lparr>user_id = 9, admin_votes = [(1, True)]\<rparr> 2 False))
   \<and> fst (approve_no_callback (example_env\<lparr>n_votes := 1\<rparr>)
            (example_info (- 5) 40 ''meme_approve_no,'' 2) [] example_world)
       = Inr (None, None, None)
   \<and> count_list (new_events example_world
                   (snd (approve_no_callback (example_env\<lparr>n_votes := 1\<rparr>)
                           (example_info (- 5) 40 ''meme_approve_no,'' 2) [] example_world)))
        (DeletePost (- 5, 40)) = 1
   \<and> vote_count (fst (set_admin_vote \<lparr>user_id = 9, admin_votes = [(1, True)]\<rparr> 2 False))
       < n_votes example_env
   \<and> vote_count (fst (set_admin_vote \<lparr>user_id = 9, admin_votes = [(1, True)]\<rparr> 2 False)) \<noteq> - 1
   \<and> fst (approve_no_callback example_env (example_info (- 5) 40 ''meme_approve_no,'' 2) []
            example_world)
       = Inr (None,
              Some (update_approve_kb [] \<lparr>user_id = 9, admin_votes = [(1, True), (2, False)]\<rparr>
                      None (Some 1)),
              None)"
proof -
  let ?p = "\<lparr>user_id = 9, admin_votes = [(1, True)]\<rparr>"
  let ?yes = "example_info (- 5) 40 ''meme_approve_yes,'' 2"
  let ?no = "example_info (- 5) 40 ''meme_approve_no,'' 2"
  let ?en = "example_env\<lparr>notify := \<lambda>u. Some NetworkError\<rparr>"
  let ?e3 = "example_env\<lparr>n_votes := 3\<rparr>"
  let ?e1 = "example_env\<lparr>n_votes := 1\<rparr>"
  have found: "pending example_world (- 5, 40) = Some ?p"
    by (simp add: example_world_def)
  have found_yes: "pending example_world (chat_id ?yes, message_id ?yes) = Some ?p"
    by (simp add: example_world_def example_info_def)
  have found_no: "pending example_world (chat_id ?no, message_id ?no) = Some ?p"
    by (simp add: example_world_def example_info_def)
  have n_yes: "vote_count (fst (set_admin_vote ?p 2 True)) = 2"
    by (simp add: set_admin_vote_def get_votes_def vote_count_def)
  have n_no: "vote_count (fst (set_admin_vote ?p 2 False)) = 1"
    by (simp add: set_admin_vote_def get_votes_def vote_count_def)
  have p_yes: "snd (set_admin_vote ?p 2 True) = \<lparr>user_id = 9, admin_votes = [(1, True), (2, True)]\<rparr>"
    by (simp add: set_admin_vote_def Let_def)
  have p_no: "snd (set_admin_vote ?p 2 False) = \<lparr>user_id = 9, admin_votes = [(1, True), (2, False)]\<rparr>"
    by (simp add: set_admin_vote_def Let_def)
  have fields: "sender_id ?yes = 2" "sender_id ?no = 2" "chat_id ?yes = - 5" "message_id ?yes = 40"
    "chat_id ?no = - 5" "message_id ?no = 40" "inline_keyboard ?no = []" "inline_keyboard ?yes = []"
    by (simp_all add: example_info_def)
  have quorum: "n_votes example_env = 2"
    by (simp add: example_env_def)
  have ch: "channel_message example_env = Some (- 100, 8)"
    by (simp add: example_env_def)
  have chn: "channel_message ?en = Some (- 100, 8)"
    by (simp add: example_env_def)
  have nt: "notified example_env 9"
    by (simp add: notified_def example_env_def)
  have nt1: "notified ?e1 9"
    by (simp add: notified_def example_env_def)
  have sh: "show_admins_votes example_env (- 5, 40) True = None"
    by (simp add: example_env_def)
  have sh1: "show_admins_votes ?e1 (- 5, 40) False = None"
    by (simp add: example_env_def)
  have nn: "notify ?en 9 = Some NetworkError"
    by simp
  have un: "\<not> caught NetworkError"
    by simp
  have a1: "n_votes example_env \<le> vote_count (fst (set_admin_vote ?p (sender_id ?yes) True))
            \<and> channel_message example_env = Some (- 100, 8) \<and> notified example_env (user_id ?p)
            \<and> show_admins_votes example_env (chat_id ?yes, message_id ?yes) True = None"
    using ch nt sh by (simp add: fields n_yes quorum)
  have a2: "n_votes ?en \<le> vote_count (fst (set_admin_vote ?p (sender_id ?yes) True))
            \<and> channel_message ?en = Some (- 100, 8)
            \<and> notify ?en (user_id ?p) = Some NetworkError \<and> \<not> caught NetworkError"
    using chn by (simp add: fields n_yes quorum)
  have a3: "vote_count (fst (set_admin_vote ?p (sender_id ?yes) True)) < n_votes ?e3
            \<and> vote_count (fst (set_admin_vote ?p (sender_id ?yes) True)) \<noteq> - 1"
    by (simp add: fields n_yes)
  have b1: "n_votes ?e1 \<le> vote_count (fst (set_admin_vote ?p (sender_id ?no) False))
            \<and> notified ?e1 (user_id ?p)
            \<and> show_admins_votes ?e1 (chat_id ?no, message_id ?no) False = None"
    using nt1 sh1 by (simp add: fields n_no)
  have b2: "vote_count (fst (set_admin_vote ?p (sender_id ?no) False)) < n_votes example_env
            \<and> vote_count (fst (set_admin_vote ?p (sender_id ?no) False)) \<noteq> - 1"
    by (simp add: fields n_no quorum)
  note yes = threshold_transition [OF found_yes, where e = example_env and cm = "(- 100, 8)"
      and arg = "[]", unfolded Let_def, THEN conjunct1, THEN conjunct1, THEN mp, OF a1]
  note interrupted = threshold_transition [OF found_yes, where e = ?en and cm = "(- 100, 8)"
      and err = NetworkError and arg = "[]", unfolded Let_def, THEN conjunct1, THEN conjunct2,
      THEN conjunct1, THEN mp, OF a2]
  note below = threshold_transition [OF found_yes, where e = ?e3 and arg = "[]",
      unfolded Let_def, THEN conjunct1, THEN conjunct2, THEN conjunct2, THEN mp, OF a3]
  note rejected = threshold_transition [OF found_no, where e = ?e1 and arg = "[]",
      unfolded Let_def, THEN conjunct2, THEN conjunct1, THEN mp, OF b1]
  note no = threshold_transition [OF found_no, where e = example_env and arg = "[]",
      unfolded Let_def, THEN conjunct2, THEN conjunct2, THEN mp, OF b2]
  have yes_result: "fst (approve_yes_callback example_env ?yes [] example_world) = Inr (None, None, None)"
    using yes by (rule conjunct1)
  have "stores (snd (approve_yes_callback example_env ?yes [] example_world))
        = ((pending example_world)((chat_id ?yes, message_id ?yes) := None),
           (published example_world)((- 100, 8) \<mapsto> \<lparr>user_votes = []\<rparr>),
           reports example_world, credited example_world,
           (if comments example_env
            then (bot_data example_world)((- 100, 8) \<mapsto> user_id ?p)
            else bot_data example_world),
           user_data example_world)"
    using yes by (rule conjunct2 [THEN conjunct1])
  then have yes_stores:
    "pending (snd (approve_yes_callback example_env ?yes [] example_world)) (- 5, 40) = None"
    "published (snd (approve_yes_callback example_env ?yes [] example_world)) (- 100, 8)
     = Some \<lparr>user_votes = []\<rparr>"
    by (simp_all add: stores_def fields)
  have "count_list (new_events example_world
                     (snd (approve_yes_callback example_env ?yes [] example_world)))
          (DeletePost (chat_id ?yes, message_id ?yes)) = 1"
    using yes by (rule conjunct2 [THEN conjunct2, THEN conjunct2, THEN conjunct1])
  then have yes_once:
    "count_list (new_events example_world
                  (snd (approve_yes_callback example_env ?yes [] example_world)))
       (DeletePost (- 5, 40)) = 1"
    by (simp add: fields)
  have raised: "fst (approve_yes_callback ?en ?yes [] example_world) = Inl (TelegramError NetworkError)"
    using interrupted by (rule conjunct1)
  have "fst (approve_yes_callback ?e3 ?yes [] example_world)
        = Inr (None,
               Some (update_approve_kb (inline_keyboard ?yes)
                       (snd (set_admin_vote ?p (sender_id ?yes) True))
                       (Some (vote_count (fst (set_admin_vote ?p (sender_id ?yes) True)))) None),
               None)"
    using below by (rule conjunct1)
  then have below_result: "fst (approve_yes_callback ?e3 ?yes [] example_world)
       = Inr (None,
              Some (update_approve_kb [] \<lparr>user_id = 9, admin_votes = [(1, True), (2, True)]\<rparr>
                      (Some 2) None),
              None)"
    by (simp add: fields n_yes p_yes)
  have rejected_result: "fst (approve_no_callback ?e1 ?no [] example_world) = Inr (None, None, None)"
    using rejected by (rule conjunct1)
  have "count_list (new_events example_world (snd (approve_no_callback ?e1 ?no [] example_world)))
          (DeletePost (chat_id ?no, message_id ?no)) = 1"
    using rejected by (rule conjunct2 [THEN conjunct2, THEN conjunct2])
  then have rejected_once:
    "count_list (new_events example_world (snd (approve_no_callback ?e1 ?no [] example_world)))
       (DeletePost (- 5, 40)) = 1"
    by (simp add: fields)
  have "fst (approve_no_callback example_env ?no [] example_world)
        = Inr (None,
               Some (update_approve_kb (inline_keyboard ?no)
                       (snd (set_admin_vote ?p (sender_id ?no) False)) None
                       (Some (vote_count (fst (set_admin_vote ?p (sender_id ?no) False))))),
               None)"
    using no by (rule conjunct1)
  then have no_result: "fst (approve_no_callback example_env ?no [] example_world)
       = Inr (None,
              Some (update_approve_kb [] \<lparr>user_id = 9, admin_votes = [(1, True), (2, False)]\<rparr>
                      None (Some 1)),
              None)"
    by (simp add: fields n_no p_no)
  from found ch nt sh yes_result yes_stores yes_once nn un raised below_result
    rejected_result rejected_once no_result
  show ?thesis
    by (simp add: n_yes n_no quorum)
qed

section \<open>The notification of the submitter\<close>

lemma approve_yes_as_delivered:
  assumes "notify e (user_id p) = Some err" and "caught err"
    and "pending w (chat_id info, message_id info) = Some p"
  shows "fst (approve_yes_callback e info arg w)
         = fst (approve_yes_callback (e\<lparr>notify := (notify e)(user_id p := None)\<rparr>) info arg w)"
    and "stores (snd (approve_yes_callback e info arg w))
         = stores (snd (approve_yes_callback (e\<lparr>notify := (notify e)(user_id p := None)\<rparr>)
                          info arg w))"
  using assms
  by (simp_all add: approve_yes_callback_def from_group_def Let_def split_beta send_post_to_def
      try_send_message_def delete_post_def emit_def stores_def split: option.splits)

lemma approve_no_as_delivered:
  assumes "notify e (user_id p) = Some err" and "caught err"
    and "pending w (chat_id info, message_id info) = Some p"
  shows "fst (approve_no_callback e info arg w)
         = fst (approve_no_callback (e\<lparr>notify := (notify e)(user_id p := None)\<rparr>) info arg w)"
    and "stores (snd (approve_no_callback e info arg w))
         = stores (snd (approve_no_callback (e\<lparr>notify := (notify e)(user_id p := None)\<rparr>)
                          info arg w))"
  using assms
  by (simp_all add: approve_no_callback_def from_group_def Let_def split_beta
      try_send_message_def delete_post_def emit_def stores_def split: option.splits)

lemma notification_failed:
  "notify e uid = Some err \<Longrightarrow> caught err \<Longrightarrow>
   notified e uid \<and> notification e uid message_text warning = LogWarning warning"
  by (simp add: notified_def notification_def)

lemma notification_delivered:
  "notified (e\<lparr>notify := (notify e)(uid := None)\<rparr>) uid
   \<and> notification (e\<lparr>notify := (notify e)(uid := None)\<rparr>) uid message_text warning
     = SendMessage uid message_text"
  by (simp add: notified_def notification_def)

text \<open>
  Claim C6. When the quorum is reached and the message to the submitter fails with
  \<^verbatim>\<open>BadRequest\<close> or \<^verbatim>\<open>Unauthorized\<close>, the handler returns what it returns when the
  message is delivered and leaves the stores as it leaves them then. When the other
  calls of the transition return, the failure is logged as a warning and the
  transition completes: the pending post is deleted and, on the approve path, the
  published post is created; the calls of the run are those of the delivered run, with
  the warning of the logger in place of the message.
\<close>

theorem notification_failure_keeps_transition:
  assumes "pending w (chat_id info, message_id info) = Some p"
    and "notify e (user_id p) = Some err"
    and "caught err"
  shows
    "(n_votes e \<le> vote_count (fst (set_admin_vote p (sender_id info) True)) \<longrightarrow>
        (let out = approve_yes_callback e info arg w;
             delivered = approve_yes_callback (e\<lparr>notify := (notify e)(user_id p := None)\<rparr>) info arg w
         in fst out = fst delivered
            \<and> stores (snd out) = stores (snd delivered)
            \<and> (channel_message e = Some cm
                \<and> show_admins_votes e (chat_id info, message_id info) True = None \<longrightarrow>
                 fst out = Inr (None, None, None)
                 \<and> pending (snd out) (chat_id info, message_id info) = None
                 \<and> published (snd out) cm = Some \<lparr>user_votes = []\<rparr>
                 \<and> new_events w (snd out)
                     = [AnswerCallbackQuery (query_id info) None,
                        SendPostTo Channel cm,
                        LogWarning ''Notifying the user on approve_yes'',
                        ShowAdminsVotes (chat_id info, message_id info) True,
                        DeletePost (chat_id info, message_id info)]
                 \<and> new_events w (snd delivered)
                     = [AnswerCallbackQuery (query_id info) None,
                        SendPostTo Channel cm,
                        SendMessage (user_id p)
                          ''Il tuo ultimo post e stato pubblicato su @Spotted_DMI'',
                        ShowAdminsVotes (chat_id info, message_id info) True,
                        DeletePost (chat_id info, message_id info)])))
     \<and> (n_votes e \<le> vote_count (fst (set_admin_vote p (sender_id info) False)) \<longrightarrow>
        (let out = approve_no_callback e info arg w;
             delivered = approve_no_callback (e\<lparr>notify := (notify e)(user_id p := None)\<rparr>) info arg w
         in fst out = fst delivered
            \<and> stores (snd out) = stores (snd delivered)
            \<and> (show_admins_votes e (chat_id info, message_id info) False = None \<longrightarrow>
                 fst out = Inr (None, None, None)
                 \<and> pending (snd out) (chat_id info, message_id info) = None
                 \<and> new_events w (snd out)
                     = [AnswerCallbackQuery (query_id info) None,
                        LogWarning ''Notifying the user on approve_no'',
                        ShowAdminsVotes (chat_id info, message_id info) False,
                        DeletePost (chat_id info, message_id info)]
                 \<and> new_events w (snd delivered)
                     = [AnswerCallbackQuery (query_id info) None,
                        SendMessage (user_id p)
                          ''Il tuo ultimo post e stato rifiutato Puoi controllare le regole con /rules'',
                        ShowAdminsVotes (chat_id info, message_id info) False,
                        DeletePost (chat_id info, message_id info)])))"
  unfolding Let_def
proof (intro conjI impI)
  let ?ok = "e\<lparr>notify := (notify e)(user_id p := None)\<rparr>"
  show "fst (approve_yes_callback e info arg w) = fst (approve_yes_callback ?ok info arg w)"
    by (rule approve_yes_as_delivered(1) [OF assms(2,3,1)])
  show "stores (snd (approve_yes_callback e info arg w))
        = stores (snd (approve_yes_callback ?ok info arg w))"
    by (rule approve_yes_as_delivered(2) [OF assms(2,3,1)])
  show "fst (approve_no_callback e info arg w) = fst (approve_no_callback ?ok info arg w)"
    by (rule approve_no_as_delivered(1) [OF assms(2,3,1)])
  show "stores (snd (approve_no_callback e info arg w))
        = stores (snd (approve_no_callback ?ok info arg w))"
    by (rule approve_no_as_delivered(2) [OF assms(2,3,1)])
next
  let ?ok = "e\<lparr>notify := (notify e)(user_id p := None)\<rparr>"
  assume q: "n_votes e \<le> vote_count (fst (set_admin_vote p (sender_id info) True))"
  assume "channel_message e = Some cm
          \<and> show_admins_votes e (chat_id info, message_id info) True = None"
  then have ch: "channel_message e = Some cm"
    and sh: "show_admins_votes e (chat_id info, message_id info) True = None"
    by simp_all
  have q': "n_votes ?ok \<le> vote_count (fst (set_admin_vote p (sender_id info) True))"
    and ch': "channel_message ?ok = Some cm"
    and sh': "show_admins_votes ?ok (chat_id info, message_id info) True = None"
    using q ch sh by simp_all
  note failed = notification_failed [OF assms(2,3)]
  note ok = notification_delivered [of e "user_id p"]
  note run = approve_yes_promotes [OF assms(1) q ch failed [THEN conjunct1] sh, of arg]
  note run' = approve_yes_promotes [OF assms(1) q' ch' ok [THEN conjunct1] sh', of arg]
  show "fst (approve_yes_callback e info arg w) = Inr (None, None, None)"
    by (rule run(1))
  show "pending (snd (approve_yes_callback e info arg w)) (chat_id info, message_id info) = None"
    by (rule run(2))
  show "published (snd (approve_yes_callback e info arg w)) cm = Some \<lparr>user_votes = []\<rparr>"
    by (rule run(3))
  show "new_events w (snd (approve_yes_callback e info arg w))
        = [AnswerCallbackQuery (query_id info) None,
           SendPostTo Channel cm,
           LogWarning ''Notifying the user on approve_yes'',
           ShowAdminsVotes (chat_id info, message_id info) True,
           DeletePost (chat_id info, message_id info)]"
    using run(4) by (simp only: failed [THEN conjunct2])
  show "new_events w (snd (approve_yes_callback ?ok info arg w))
        = [AnswerCallbackQuery (query_id info) None,
           SendPostTo Channel cm,
           SendMessage (user_id p) ''Il tuo ultimo post e stato pubblicato su @Spotted_DMI'',
           ShowAdminsVotes (chat_id info, message_id info) True,
           DeletePost (chat_id info, message_id info)]"
    using run'(4) by (simp only: ok [THEN conjunct2])
next
  let ?ok = "e\<lparr>notify := (notify e)(user_id p := None)\<rparr>"
  assume q: "n_votes e \<le> vote_count (fst (set_admin_vote p (sender_id info) False))"
  assume sh: "show_admins_votes e (chat_id info, message_id info) False = None"
  have q': "n_votes ?ok \<le> vote_count (fst (set_admin_vote p (sender_id info) False))"
    and sh': "show_admins_votes ?ok (chat_id info, message_id info) False = None"
    using q sh by simp_all
  note failed = notification_failed [OF assms(2,3)]
  note ok = notification_delivered [of e "user_id p"]
  note run = approve_no_rejects [OF assms(1) q failed [THEN conjunct1] sh, of arg]
  note run' = approve_no_rejects [OF assms(1) q' ok [THEN conjunct1] sh', of arg]
  show "fst (approve_no_callback e info arg w) = Inr (None, None, None)"
    by (rule run(1))
  show "pending (snd (approve_no_callback e info arg w)) (chat_id info, message_id info) = None"
    by (rule run(4))
  show "new_events w (snd (approve_no_callback e info arg w))
        = [AnswerCallbackQuery (query_id info) None,
           LogWarning ''Notifying the user on approve_no'',
           ShowAdminsVotes (chat_id info, message_id info) False,
           DeletePost (chat_id info, message_id info)]"
    using run(3) by (simp only: failed [THEN conjunct2])
  show "new_events w (snd (approve_no_callback ?ok info arg w))
        = [AnswerCallbackQuery (query_id info) None,
           SendMessage (user_id p)
             ''Il tuo ultimo post e stato rifiutato Puoi controllare le regole con /rules'',
           ShowAdminsVotes (chat_id info, message_id info) False,
           DeletePost (chat_id info, message_id info)]"
    using run'(3) by (simp only: ok [THEN conjunct2])
qed

theorem notification_failure_keeps_transition_witness:
  "pending example_world (- 5, 40) = Some \<lparr>user_id = 9, admin_votes = [(1, True)]\<rparr>
   \<and> notify (example_env\<lparr>notify := \<lambda>u. Some Unauthorized\<rparr>) 9 = Some Unauthorized
   \<and> caught Unauthorized
   \<and> n_votes (example_env\<lparr>notify := \<lambda>u. Some Unauthorized\<rparr>)
       \<le> vote_count (fst (set_admin_vote \<lparr>user_id = 9, admin_votes = [(1, True)]\<rparr> 2 True))
   \<and> channel_message (example_env\<lparr>notify := \<lambda>u. Some Unauthorized\<rparr>) = Some (- 100, 8)
   \<and> show_admins_votes (example_env\<lparr>notify := \<lambda>u. Some Unauthorized\<rparr>) (- 5, 40) True = None
   \<and> fst (approve_yes_callback (example_env\<lparr>notify := \<lambda>u. Some Unauthorized\<rparr>)
            (example_info (- 5) 40 ''meme_approve_yes,'' 2) [] example_world)
       = Inr (None, None, None)
   \<and> pending (snd (approve_yes_callback (example_env\<lparr>notify := \<lambda>u. Some Unauthorized\<rparr>)
                      (example_info (- 5) 40 ''meme_approve_yes,'' 2) [] example_world))
        (- 5, 40) = None
   \<and> published (snd (approve_yes_callback (example_env\<lparr>notify := \<lambda>u. Some Unauthorized\<rparr>)
                        (example_info (- 5) 40 ''meme_approve_yes,'' 2) [] example_world))
        (- 100, 8) = Some \<lparr>user_votes = []\<rparr>
   \<and> new_events example_world
        (snd (approve_yes_callback (example_env\<lparr>notify := \<lambda>u. Some Unauthorized\<rparr>)
                (example_info (- 5) 40 ''meme_approve_yes,'' 2) [] example_world))
       = [AnswerCallbackQuery 1 None, SendPostTo Channel (- 100, 8),
          LogWarning ''Notifying the user on approve_yes'',
          ShowAdminsVotes (- 5, 40) True, DeletePost (- 5, 40)]
   \<and> notify (example_env\<lparr>n_votes := 1, notify := \<lambda>u. Some BadRequest\<rparr>) 9 = Some BadRequest
   \<and> caught BadRequest
   \<and> n_votes (example_env\<lparr>n_votes := 1, notify := \<lambda>u. Some BadRequest\<rparr>)
       \<le> vote_count (fst (set_admin_vote \<lparr>user_id = 9, admin_votes = [(1, True)]\<rparr> 2 False))
   \<and> show_admins_votes (example_env\<lparr>n_votes := 1, notify := \<lambda>u. Some BadRequest\<rparr>)
        (- 5, 40) False = None
   \<and> fst (approve_no_callback (example_env\<lparr>n_votes := 1, notify := \<lambda>u. Some BadRequest\<rparr>)
            (example_info (- 5) 40 ''meme_approve_no,'' 2) [] example_world)
       = Inr (None, None, None)
   \<and> pending (snd (approve_no_callback (example_env\<lparr>n_votes := 1, notify := \<lambda>u. Some BadRequest\<rparr>)
                      (example_info (- 5) 40 ''meme_approve_no,'' 2) [] example_world))
        (- 5, 40) = None
   \<and> new_events example_world
        (snd (approve_no_callback (example_env\<lparr>n_votes := 1, notify := \<lambda>u. Some BadRequest\<rparr>)
                (example_info (- 5) 40 ''meme_approve_no,'' 2) [] example_world))
       = [AnswerCallbackQuery 1 None, LogWarning ''Notifying the user on approve_no'',
          ShowAdminsVotes (- 5, 40) False, DeletePost (- 5, 40)]"
proof -
  let ?e = "example_env\<lparr>notify := \<lambda>u. Some Unauthorized\<rparr>"
  let ?e1 = "example_env\<lparr>n_votes := 1, notify := \<lambda>u. Some BadRequest\<rparr>"
  let ?i = "example_info (- 5) 40 ''meme_approve_yes,'' 2"
  let ?j = "example_info (- 5) 40 ''meme_approve_no,'' 2"
  let ?p = "\<lparr>user_id = 9, admin_votes = [(1, True)]\<rparr>"
  have found: "pending example_world (- 5, 40) = Some ?p"
    by (simp add: example_world_def)
  have found_i: "pending example_world (chat_id ?i, message_id ?i) = Some ?p"
    by (simp add: example_world_def example_info_def)
  have found_j: "pending example_world (chat_id ?j, message_id ?j) = Some ?p"
    by (simp add: example_world_def example_info_def)
  have ids: "chat_id ?i = - 5" "message_id ?i = 40" "query_id ?i = 1" "sender_id ?i = 2"
    "chat_id ?j = - 5" "message_id ?j = 40" "query_id ?j = 1" "sender_id ?j = 2"
    by (simp_all add: example_info_def)
  have u: "notify ?e 9 = Some Unauthorized" and u': "notify ?e (user_id ?p) = Some Unauthorized"
    and c: "caught Unauthorized"
    by simp_all
  have u1: "notify ?e1 9 = Some BadRequest" and u1': "notify ?e1 (user_id ?p) = Some BadRequest"
    and c1: "caught BadRequest"
    by simp_all
  have n: "vote_count (fst (set_admin_vote ?p 2 True)) = 2"
    by (simp add: set_admin_vote_def get_votes_def vote_count_def)
  have n1: "vote_count (fst (set_admin_vote ?p 2 False)) = 1"
    by (simp add: set_admin_vote_def get_votes_def vote_count_def)
  have q: "n_votes ?e \<le> vote_count (fst (set_admin_vote ?p 2 True))"
    by (simp add: n example_env_def)
  have q': "n_votes ?e \<le> vote_count (fst (set_admin_vote ?p (sender_id ?i) True))"
    using q by (simp only: ids)
  have q1: "n_votes ?e1 \<le> vote_count (fst (set_admin_vote ?p 2 False))"
    by (simp add: n1)
  have q1': "n_votes ?e1 \<le> vote_count (fst (set_admin_vote ?p (sender_id ?j) False))"
    using q1 by (simp only: ids)
  have ch: "channel_message ?e = Some (- 100, 8)"
    by (simp add: example_env_def)
  have sh: "show_admins_votes ?e (- 5, 40) True = None"
    by (simp add: example_env_def)
  have sh1: "show_admins_votes ?e1 (- 5, 40) False = None"
    by (simp add: example_env_def)
  have a: "channel_message ?e = Some (- 100, 8)
           \<and> show_admins_votes ?e (chat_id ?i, message_id ?i) True = None"
    using ch sh by (simp only: ids)
  have a1: "show_admins_votes ?e1 (chat_id ?j, message_id ?j) False = None"
    using sh1 by (simp only: ids)
  note t = notification_failure_keeps_transition [OF found_i u' c, where arg = "[]"
      and cm = "(- 100, 8)", unfolded Let_def, THEN conjunct1, THEN mp, OF q',
      THEN conjunct2, THEN conjunct2, THEN mp, OF a, unfolded ids]
  note t1 = notification_failure_keeps_transition [OF found_j u1' c1, where arg = "[]",
      unfolded Let_def, THEN conjunct2, THEN mp, OF q1',
      THEN conjunct2, THEN conjunct2, THEN mp, OF a1, unfolded ids]
  from found u c q ch sh t [THEN conjunct1] t [THEN conjunct2, THEN conjunct1]
    t [THEN conjunct2, THEN conjunct2, THEN conjunct1]
    t [THEN conjunct2, THEN conjunct2, THEN conjunct2, THEN conjunct1]
    u1 c1 q1 sh1 t1 [THEN conjunct1] t1 [THEN conjunct2, THEN conjunct1]
    t1 [THEN conjunct2, THEN conjunct2, THEN conjunct1]
  show ?thesis
    by (intro conjI)
qed

section \<open>The readers' reactions\<close>

lemma set_user_vote_distinct:
  assumes "distinct (map fst (user_votes p))"
    and "set_user_vote categories p voter category = Inr (was_added, p')"
  shows "distinct (map fst (user_votes p'))"
  using assms
  by (auto simp: set_user_vote_def distinct_update distinct_delete split: if_splits)

lemma cast_votes_distinct:
  "distinct (map fst (user_votes p)) \<Longrightarrow> distinct (map fst (user_votes (cast_votes categories p calls)))"
proof (induction calls arbitrary: p)
  case Nil
  then show ?case by simp
next
  case (Cons call calls)
  obtain voter category where call: "call = (voter, category)"
    by (cases call)
  show ?case
  proof (cases "set_user_vote categories p voter category")
    case (Inl err)
    with Cons call show ?thesis by simp
  next
    case (Inr r)
    obtain was_added p' where r: "r = (was_added, p')"
      by (cases r)
    from Cons.prems Inr r have "distinct (map fst (user_votes p'))"
      by (auto dest: set_user_vote_distinct)
    with Cons.IH Inr r call show ?thesis by simp
  qed
qed

lemma rows_of_key:
  "distinct (map fst al) \<Longrightarrow>
   map snd (filter (\<lambda>row. fst row = k) al) = (case map_of al k of None \<Rightarrow> [] | Some v \<Rightarrow> [v])"
proof (induction al)
  case Nil
  then show ?case by simp
next
  case (Cons row al)
  then show ?case
    by (cases row) (auto split: option.splits simp: map_of_eq_None_iff image_iff)
qed

lemma active_categories_distinct:
  "distinct (map fst (user_votes p)) \<Longrightarrow>
   active_categories p voter
   = (case map_of (user_votes p) voter of None \<Rightarrow> [] | Some c \<Rightarrow> [c])"
  by (simp add: active_categories_def rows_of_key)

lemma at_most_one_active:
  "distinct (map fst (user_votes p)) \<Longrightarrow> length (active_categories p voter) \<le> 1"
  by (simp add: active_categories_distinct split: option.splits)

lemma cast_then_retract:
  assumes "category \<in> set categories"
    and "map_of (user_votes p) voter \<noteq> Some category"
  shows "set_user_vote categories p voter category
         = Inr (True, p\<lparr>user_votes := AList.update voter category (user_votes p)\<rparr>)"
    and "set_user_vote categories (p\<lparr>user_votes := AList.update voter category (user_votes p)\<rparr>)
           voter category
         = Inr (False, p\<lparr>user_votes := AList.delete voter (user_votes p)\<rparr>)"
    and "map_of (user_votes (p\<lparr>user_votes := AList.delete voter (user_votes p)\<rparr>)) voter = None"
  using assms
  by (simp_all add: set_user_vote_def update_conv' delete_conv' delete_update_same)

lemma retract_then_cast:
  assumes "category \<in> set categories"
    and "map_of (user_votes p) voter = Some category"
  shows "set_user_vote categories p voter category
         = Inr (False, p\<lparr>user_votes := AList.delete voter (user_votes p)\<rparr>)"
    and "set_user_vote categories (p\<lparr>user_votes := AList.delete voter (user_votes p)\<rparr>)
           voter category
         = Inr (True, p\<lparr>user_votes := AList.update voter category
                                         (AList.delete voter (user_votes p))\<rparr>)"
    and "map_of (user_votes (p\<lparr>user_votes := AList.update voter category
                                               (AList.delete voter (user_votes p))\<rparr>)) voter
         = Some category"
  using assms
  by (simp_all add: set_user_vote_def update_conv' delete_conv')

lemma switch_category:
  assumes "category \<in> set categories"
    and "map_of (user_votes p) voter = Some prior"
    and "prior \<noteq> category"
  shows "set_user_vote categories p voter category
         = Inr (True, p\<lparr>user_votes := AList.update voter category (user_votes p)\<rparr>)"
    and "map_of (user_votes (p\<lparr>user_votes := AList.update voter category (user_votes p)\<rparr>)) voter
         = Some category"
  using assms
  by (simp_all add: set_user_vote_def update_conv')


text \<open>
  Claim C4 says that of two calls in a row with the same category the second removes
  the entry and returns \<^verbatim>\<open>false\<close>. For a voter who holds the category before the
  first call it is the first call that removes the entry; the second casts the vote
  again and returns \<^verbatim>\<open>true\<close>.
\<close>

theorem same_category_twice_counterexample:
  "set_user_vote [''0'', ''1''] \<lparr>user_votes = [(7, ''1'')]\<rparr> 7 ''1''
     = Inr (False, \<lparr>user_votes = []\<rparr>)
   \<and> set_user_vote [''0'', ''1''] \<lparr>user_votes = []\<rparr> 7 ''1''
     = Inr (True, \<lparr>user_votes = [(7, ''1'')]\<rparr>)"
  by (simp add: set_user_vote_def)

text \<open>
  Claim C4, amended. After any sequence of \<^verbatim>\<open>set_user_vote\<close> calls on a post where no
  voter has two rows (a new post has none), a voter holds at most one category. Two
  calls in a row with the same valid category: when the voter did not hold it, the
  first returns \<^verbatim>\<open>true\<close> and the second removes the entry and returns \<^verbatim>\<open>false\<close>; when
  the voter held it, the first removes the entry and returns \<^verbatim>\<open>false\<close> and the second
  casts it again and returns \<^verbatim>\<open>true\<close>. A call with a valid category other than the
  one held replaces it and returns \<^verbatim>\<open>true\<close>.
\<close>

theorem reaction_mutual_exclusivity:
  "(distinct (map fst (user_votes p)) \<longrightarrow>
      length (active_categories (cast_votes categories p calls) voter) \<le> 1)
   \<and> length (active_categories (cast_votes categories \<lparr>user_votes = []\<rparr> calls) voter) \<le> 1
   \<and> (category \<in> set categories \<and> map_of (user_votes p) voter \<noteq> Some category \<longrightarrow>
        set_user_vote categories p voter category
          = Inr (True, p\<lparr>user_votes := AList.update voter category (user_votes p)\<rparr>)
        \<and> set_user_vote categories
             (p\<lparr>user_votes := AList.update voter category (user_votes p)\<rparr>) voter category
          = Inr (False, p\<lparr>user_votes := AList.delete voter (user_votes p)\<rparr>)
        \<and> map_of (user_votes (p\<lparr>user_votes := AList.delete voter (user_votes p)\<rparr>)) voter
          = None)
   \<and> (category \<in> set categories \<and> map_of (user_votes p) voter = Some category \<longrightarrow>
        set_user_vote categories p voter category
          = Inr (False, p\<lparr>user_votes := AList.delete voter (user_votes p)\<rparr>)
        \<and> set_user_vote categories
             (p\<lparr>user_votes := AList.delete voter (user_votes p)\<rparr>) voter category
          = Inr (True, p\<lparr>user_votes := AList.update voter category
                                           (AList.delete voter (user_votes p))\<rparr>)
        \<and> map_of (user_votes (p\<lparr>user_votes := AList.update voter category
                                                 (AList.delete voter (user_votes p))\<rparr>)) voter
          = Some category)
   \<and> (category \<in> set categories \<and> map_of (user_votes p) voter = Some prior
       \<and> prior \<noteq> category \<longrightarrow>
        set_user_vote categories p voter category
          = Inr (True, p\<lparr>user_votes := AList.update voter category (user_votes p)\<rparr>)
        \<and> map_of (user_votes (p\<lparr>user_votes := AList.update voter category (user_votes p)\<rparr>))
             voter = Some category
        \<and> (distinct (map fst (user_votes p)) \<longrightarrow>
             active_categories (p\<lparr>user_votes := AList.update voter category (user_votes p)\<rparr>)
               voter = [category]))"
proof (intro conjI impI)
  assume "distinct (map fst (user_votes p))"
  then show "length (active_categories (cast_votes categories p calls) voter) \<le> 1"
    by (intro at_most_one_active cast_votes_distinct)
next
  show "length (active_categories (cast_votes categories \<lparr>user_votes = []\<rparr> calls) voter) \<le> 1"
    by (intro at_most_one_active cast_votes_distinct) simp
next
  assume a: "category \<in> set categories \<and> map_of (user_votes p) voter \<noteq> Some category"
  then have c: "category \<in> set categories" and n: "map_of (user_votes p) voter \<noteq> Some category"
    by simp_all
  show "set_user_vote categories p voter category
          = Inr (True, p\<lparr>user_votes := AList.update voter category (user_votes p)\<rparr>)"
    by (rule cast_then_retract(1) [OF c n])
  show "set_user_vote categories
             (p\<lparr>user_votes := AList.update voter category (user_votes p)\<rparr>) voter category
          = Inr (False, p\<lparr>user_votes := AList.delete voter (user_votes p)\<rparr>)"
    by (rule cast_then_retract(2) [OF c n])
  show "map_of (user_votes (p\<lparr>user_votes := AList.delete voter (user_votes p)\<rparr>)) voter = None"
    by (rule cast_then_retract(3) [OF c n])
next
  assume a: "category \<in> set categories \<and> map_of (user_votes p) voter = Some category"
  then have c: "category \<in> set categories" and h: "map_of (user_votes p) voter = Some category"
    by simp_all
  show "set_user_vote categories p voter category
          = Inr (False, p\<lparr>user_votes := AList.delete voter (user_votes p)\<rparr>)"
    by (rule retract_then_cast(1) [OF c h])
  show "set_user_vote categories
             (p\<lparr>user_votes := AList.delete voter (user_votes p)\<rparr>) voter category
          = Inr (True, p\<lparr>user_votes := AList.update voter category
                                           (AList.delete voter (user_votes p))\<rparr>)"
    by (rule retract_then_cast(2) [OF c h])
  show "map_of (user_votes (p\<lparr>user_votes := AList.update voter category
                                                 (AList.delete voter (user_votes p))\<rparr>)) voter
          = Some category"
    by (rule retract_then_cast(3) [OF c h])
next
  assume a: "category \<in> set categories \<and> map_of (user_votes p) voter = Some prior
       \<and> prior \<noteq> category"
  then have c: "category \<in> set categories" and h: "map_of (user_votes p) voter = Some prior"
    and d: "prior \<noteq> category"
    by simp_all
  show "set_user_vote categories p voter category
          = Inr (True, p\<lparr>user_votes := AList.update voter category (user_votes p)\<rparr>)"
    by (rule switch_category(1) [OF c h d])
  show "map_of (user_votes (p\<lparr>user_votes := AList.update voter category (user_votes p)\<rparr>))
             voter = Some category"
    by (rule switch_category(2) [OF c h d])
  assume "distinct (map fst (user_votes p))"
  then have "distinct (map fst (user_votes (p\<lparr>user_votes := AList.update voter category (user_votes p)\<rparr>)))"
    by (simp add: distinct_update)
  then show "active_categories (p\<lparr>user_votes := AList.update voter category (user_votes p)\<rparr>)
               voter = [category]"
    by (simp add: active_categories_distinct update_conv')
qed


theorem reaction_mutual_exclusivity_witness:
  "distinct (map fst (user_votes \<lparr>user_votes = [(7, ''0'')]\<rparr>))
   \<and> length (active_categories
               (cast_votes [''0'', ''1''] \<lparr>user_votes = [(7, ''0'')]\<rparr>
                  [(7, ''1''), (8, ''0''), (7, ''1'')]) 7) \<le> 1
   \<and> ''1'' \<in> set [''0'', ''1'']
   \<and> map_of (user_votes \<lparr>user_votes = [(7, ''0'')]\<rparr>) 7 = Some ''0''
   \<and> ''0'' \<noteq> ''1''
   \<and> set_user_vote [''0'', ''1''] \<lparr>user_votes = [(7, ''0'')]\<rparr> 7 ''1''
       = Inr (True, \<lparr>user_votes = [(7, ''1'')]\<rparr>)
   \<and> set_user_vote [''0'', ''1''] \<lparr>user_votes = [(7, ''1'')]\<rparr> 7 ''1''
       = Inr (False, \<lparr>user_votes = []\<rparr>)
   \<and> active_categories \<lparr>user_votes = [(7, ''1'')]\<rparr> 7 = [''1'']
   \<and> map_of (user_votes \<lparr>user_votes = [(7, ''1'')]\<rparr>) 7 = Some ''1''
   \<and> set_user_vote [''0'', ''1''] \<lparr>user_votes = []\<rparr> 7 ''1''
       = Inr (True, \<lparr>user_votes = [(7, ''1'')]\<rparr>)"
proof -
  let ?cats = "[''0'', ''1'']"
  let ?p = "\<lparr>user_votes = [(7::int, ''0'')]\<rparr>"
  let ?calls = "[(7::int, ''1''), (8, ''0''), (7, ''1'')]"
  have inv: "distinct (map fst (user_votes ?p))"
    by simp
  have valid: "''1'' \<in> set ?cats"
    by simp
  have holds: "map_of (user_votes ?p) 7 = Some ''0''"
    by simp
  have differs: "''0'' \<noteq> ''1''"
    by simp
  have other: "''1'' \<in> set ?cats \<and> map_of (user_votes ?p) 7 \<noteq> Some ''1''"
    by simp
  have switch: "''1'' \<in> set ?cats \<and> map_of (user_votes ?p) 7 = Some ''0'' \<and> ''0'' \<noteq> ''1''"
    by simp
  note t = reaction_mutual_exclusivity [of ?p ?cats ?calls 7 "''1''" "''0''"]
  note one = t [THEN conjunct1, THEN mp, OF inv]
  note twice = t [THEN conjunct2, THEN conjunct2, THEN conjunct1, THEN mp, OF other]
  note switched = t [THEN conjunct2, THEN conjunct2, THEN conjunct2, THEN conjunct2, THEN mp,
      OF switch]
  have first: "set_user_vote ?cats ?p 7 ''1'' = Inr (True, \<lparr>user_votes = [(7, ''1'')]\<rparr>)"
    using twice [THEN conjunct1] by simp
  have second: "set_user_vote ?cats \<lparr>user_votes = [(7, ''1'')]\<rparr> 7 ''1''
                = Inr (False, \<lparr>user_votes = []\<rparr>)"
    using twice [THEN conjunct2, THEN conjunct1] by simp
  have only: "active_categories \<lparr>user_votes = [(7, ''1'')]\<rparr> 7 = [''1'']"
    using switched [THEN conjunct2, THEN conjunct2, THEN mp, OF inv] by simp
  let ?q = "\<lparr>user_votes = [(7::int, ''1'')]\<rparr>"
  have held: "map_of (user_votes ?q) 7 = Some ''1''"
    by simp
  have same: "''1'' \<in> set ?cats \<and> map_of (user_votes ?q) 7 = Some ''1''"
    by simp
  note retracted = reaction_mutual_exclusivity [of ?q ?cats ?calls 7 "''1''" "''0''",
      THEN conjunct2, THEN conjunct2, THEN conjunct2, THEN conjunct1, THEN mp, OF same]
  have again: "set_user_vote ?cats \<lparr>user_votes = []\<rparr> 7 ''1''
               = Inr (True, \<lparr>user_votes = [(7, ''1'')]\<rparr>)"
    using retracted [THEN conjunct2, THEN conjunct1] by simp
  from inv one valid holds differs first second only held again show ?thesis
    by (intro conjI)
qed


section \<open>The dispatcher: unknown commands, invalid categories, absent posts\<close>

lemma vote_callback_not_found:
  "published w (chat_id info, message_id info) = None \<Longrightarrow>
   vote_callback e info arg w = (Inl AttributeError, w)"
  by (simp add: vote_callback_def from_channel_def)

lemma vote_callback_invalid:
  assumes "published w (chat_id info, message_id info) = Some p"
    and "arg \<notin> fst ` set (REACTION e)"
  shows "vote_callback e info arg w = (Inl (KeyError arg), w)"
  using assms by (simp add: vote_callback_def from_channel_def set_user_vote_def)


lemma new_events_emit_same: "new_events w (emit ev w) = [ev]"
  by (simp add: new_events_def emit_def)

lemma meme_vote_invalid_found:
  assumes "split_comma (old_reactions (data info)) = d0 # category # ds"
    and "globals (drop 5 d0 @ ''_callback'') = Some Vote"
    and "category \<notin> fst ` set (REACTION e)"
    and "published w (chat_id info, message_id info) = Some p"
  shows "meme_callback e info w = (Inr None, emit (LogError (''meme_callback: '' @ category)) w)"
proof -
  have "vote_callback e (info\<lparr>data := old_reactions (data info)\<rparr>) category w
        = (Inl (KeyError category), w)"
    using assms(3,4) by (intro vote_callback_invalid [where p = p]) simp_all
  then show ?thesis
    by (simp add: meme_callback_call [OF assms(1,2)] call_meme_def edit_menu_nothing)
qed

lemma meme_vote_absent:
  assumes "split_comma (old_reactions (data info)) = d0 # category # ds"
    and "globals (drop 5 d0 @ ''_callback'') = Some Vote"
    and "published w (chat_id info, message_id info) = None"
  shows "meme_callback e info w = (Inl AttributeError, w)"
proof -
  have "vote_callback e (info\<lparr>data := old_reactions (data info)\<rparr>) category w
        = (Inl AttributeError, w)"
    using assms(3) by (intro vote_callback_not_found) simp
  then show ?thesis
    by (simp add: meme_callback_call [OF assms(1,2)] call_meme_def)
qed

lemma stats_callback_unknown:
  assumes "split_comma (data info) = d0 # rest"
    and "globals (drop 6 d0 @ ''_callback'') = None"
  shows "stats_callback e info w
         = (Inr (), emit (LogError (''stats_callback: '' @ drop 6 d0 @ ''_callback''))
                      (emit (AnswerCallbackQuery (query_id info) None) w))"
  using assms by (simp add: stats_callback_def)

text \<open>
  Claim C8. For a token whose command names no function of the module,
  \<^verbatim>\<open>meme_callback\<close> logs the \<^verbatim>\<open>KeyError\<close> and edits neither the text nor the keyboard of
  the message; so does \<^verbatim>\<open>stats_callback\<close>, which has only answered the query. For a
  vote whose category is outside \<^verbatim>\<open>REACTION\<close>, no edit is made, and the \<^verbatim>\<open>KeyError\<close>
  of the category is logged when the published post is in the store (when it is not,
  the condition is the absent post of claim C5, not the invalid category).
\<close>

theorem stale_input_leaves_ui_unchanged:
  "(split_comma (old_reactions (data info)) = d0 # rest
    \<and> globals (drop 5 d0 @ ''_callback'') = None \<longrightarrow>
      meme_callback e info w
        = (Inr None, emit (LogError (''meme_callback: '' @ drop 5 d0 @ ''_callback'')) w)
      \<and> (\<forall>ev \<in> set (new_events w (snd (meme_callback e info w))). \<not> is_edit ev))
   \<and> (split_comma (old_reactions (data info)) = d0 # category # ds
      \<and> globals (drop 5 d0 @ ''_callback'') = Some Vote
      \<and> category \<notin> fst ` set (REACTION e) \<longrightarrow>
        (\<forall>ev \<in> set (new_events w (snd (meme_callback e info w))). \<not> is_edit ev)
        \<and> (published w (chat_id info, message_id info) \<noteq> None \<longrightarrow>
             meme_callback e info w
               = (Inr None, emit (LogError (''meme_callback: '' @ category)) w)))
   \<and> (split_comma (data info) = d0 # rest
      \<and> globals (drop 6 d0 @ ''_callback'') = None \<longrightarrow>
        stats_callback e info w
          = (Inr (), emit (LogError (''stats_callback: '' @ drop 6 d0 @ ''_callback''))
                       (emit (AnswerCallbackQuery (query_id info) None) w)))"
proof (intro conjI impI)
  assume a: "split_comma (old_reactions (data info)) = d0 # rest
             \<and> globals (drop 5 d0 @ ''_callback'') = None"
  then have r: "meme_callback e info w
        = (Inr None, emit (LogError (''meme_callback: '' @ drop 5 d0 @ ''_callback'')) w)"
    by (intro meme_callback_unknown [where rest = rest]) simp_all
  then show "meme_callback e info w
        = (Inr None, emit (LogError (''meme_callback: '' @ drop 5 d0 @ ''_callback'')) w)" .
  show "\<forall>ev \<in> set (new_events w (snd (meme_callback e info w))). \<not> is_edit ev"
    by (simp add: r new_events_emit_same)
next
  assume a: "split_comma (old_reactions (data info)) = d0 # category # ds
      \<and> globals (drop 5 d0 @ ''_callback'') = Some Vote
      \<and> category \<notin> fst ` set (REACTION e)"
  then have s: "split_comma (old_reactions (data info)) = d0 # category # ds"
    and g: "globals (drop 5 d0 @ ''_callback'') = Some Vote"
    and c: "category \<notin> fst ` set (REACTION e)"
    by simp_all
  show "\<forall>ev \<in> set (new_events w (snd (meme_callback e info w))). \<not> is_edit ev"
  proof (cases "published w (chat_id info, message_id info)")
    case None
    from meme_vote_absent [OF s g None] show ?thesis
      by (simp add: new_events_def)
  next
    case (Some p)
    from meme_vote_invalid_found [OF s g c Some] show ?thesis
      by (simp add: new_events_emit_same)
  qed
  assume "published w (chat_id info, message_id info) \<noteq> None"
  then obtain p where "published w (chat_id info, message_id info) = Some p"
    by auto
  then show "meme_callback e info w
               = (Inr None, emit (LogError (''meme_callback: '' @ category)) w)"
    by (rule meme_vote_invalid_found [OF s g c])
next
  assume "split_comma (data info) = d0 # rest \<and> globals (drop 6 d0 @ ''_callback'') = None"
  then show "stats_callback e info w
          = (Inr (), emit (LogError (''stats_callback: '' @ drop 6 d0 @ ''_callback''))
                       (emit (AnswerCallbackQuery (query_id info) None) w))"
    by (intro stats_callback_unknown [where rest = rest]) simp_all
qed


theorem stale_input_leaves_ui_unchanged_witness:
  "split_comma (old_reactions (data (example_info (- 100) 7 ''meme_unknown,1'' 3)))
     = [''meme_unknown'', ''1'']
   \<and> globals (drop 5 ''meme_unknown'' @ ''_callback'') = None
   \<and> meme_callback example_env (example_info (- 100) 7 ''meme_unknown,1'' 3) example_world
       = (Inr None, emit (LogError ''meme_callback: unknown_callback'') example_world)
   \<and> split_comma (old_reactions (data (example_info (- 100) 7 ''meme_vote,9'' 3)))
       = [''meme_vote'', ''9'']
   \<and> globals (drop 5 ''meme_vote'' @ ''_callback'') = Some Vote
   \<and> ''9'' \<notin> fst ` set (REACTION example_env)
   \<and> published (example_world\<lparr>published := [(- 100, 7) \<mapsto> \<lparr>user_votes = []\<rparr>]\<rparr>) (- 100, 7)
       \<noteq> None
   \<and> meme_callback example_env (example_info (- 100) 7 ''meme_vote,9'' 3)
         (example_world\<lparr>published := [(- 100, 7) \<mapsto> \<lparr>user_votes = []\<rparr>]\<rparr>)
       = (Inr None,
          emit (LogError ''meme_callback: 9'')
            (example_world\<lparr>published := [(- 100, 7) \<mapsto> \<lparr>user_votes = []\<rparr>]\<rparr>))
   \<and> split_comma (data (example_info (- 100) 7 ''stats_median,votes'' 3))
       = [''stats_median'', ''votes'']
   \<and> globals (drop 6 ''stats_median'' @ ''_callback'') = None
   \<and> stats_callback example_env (example_info (- 100) 7 ''stats_median,votes'' 3) example_world
       = (Inr (),
          emit (LogError ''stats_callback: median_callback'')
            (emit (AnswerCallbackQuery 1 None) example_world))"
proof -
  let ?a = "example_info (- 100) 7 ''meme_unknown,1'' 3"
  let ?b = "example_info (- 100) 7 ''meme_vote,9'' 3"
  let ?w = "example_world\<lparr>published := [(- 100, 7) \<mapsto> \<lparr>user_votes = []\<rparr>]\<rparr>"
  have sa: "split_comma (old_reactions (data ?a)) = [''meme_unknown'', ''1'']"
    by (simp add: example_info_def old_reactions_def)
  have ga: "globals (drop 5 ''meme_unknown'' @ ''_callback'') = None"
    by (simp add: globals_def)
  have sb: "split_comma (old_reactions (data ?b)) = [''meme_vote'', ''9'']"
    by (simp add: example_info_def old_reactions_def)
  have gb: "globals (drop 5 ''meme_vote'' @ ''_callback'') = Some Vote"
    by (simp add: globals_def)
  have cb: "''9'' \<notin> fst ` set (REACTION example_env)"
    by (simp add: example_env_def)
  have pb: "published ?w (- 100, 7) \<noteq> None"
    by simp
  have pb': "published ?w (chat_id ?b, message_id ?b) \<noteq> None"
    by (simp add: example_info_def)
  note t = stale_input_leaves_ui_unchanged
  have "meme_callback example_env ?a example_world
        = (Inr None,
           emit (LogError (''meme_callback: '' @ drop 5 ''meme_unknown'' @ ''_callback''))
             example_world)"
    using t [of ?a "''meme_unknown''" "[''1'']" example_env example_world, THEN conjunct1, THEN mp,
        OF conjI [OF sa ga], THEN conjunct1] .
  then have ra: "meme_callback example_env ?a example_world
        = (Inr None, emit (LogError ''meme_callback: unknown_callback'') example_world)"
    by simp
  have "meme_callback example_env ?b ?w
        = (Inr None, emit (LogError (''meme_callback: '' @ ''9'')) ?w)"
    using t [of ?b "''meme_vote''" _ example_env ?w "''9''" "[]", THEN conjunct2, THEN conjunct1,
        THEN mp, OF conjI [OF sb conjI [OF gb cb]], THEN conjunct2, THEN mp, OF pb'] .
  then have rb: "meme_callback example_env ?b ?w
        = (Inr None, emit (LogError ''meme_callback: 9'') ?w)"
    by simp
  let ?c = "example_info (- 100) 7 ''stats_median,votes'' 3"
  have sc: "split_comma (data ?c) = [''stats_median'', ''votes'']"
    by (simp add: example_info_def)
  have gc: "globals (drop 6 ''stats_median'' @ ''_callback'') = None"
    by (simp add: globals_def)
  have "stats_callback example_env ?c example_world
        = (Inr (),
           emit (LogError (''stats_callback: '' @ drop 6 ''stats_median'' @ ''_callback''))
             (emit (AnswerCallbackQuery (query_id ?c) None) example_world))"
    using t [of ?c "''stats_median''" "[''votes'']" example_env example_world,
        THEN conjunct2, THEN conjunct2, THEN mp, OF conjI [OF sc gc]] .
  then have rc: "stats_callback example_env ?c example_world
        = (Inr (),
           emit (LogError ''stats_callback: median_callback'')
             (emit (AnswerCallbackQuery 1 None) example_world))"
    by (simp add: example_info_def)
  from sa ga ra sb gb cb pb rb sc gc rc show ?thesis
    by (intro conjI)
qed


lemma meme_approve_absent:
  assumes "split_comma (old_reactions (data info)) = d0 # d1 # ds"
    and "globals (drop 5 d0 @ ''_callback'') = Some Approve_yes
         \<or> globals (drop 5 d0 @ ''_callback'') = Some Approve_no"
    and "pending w (chat_id info, message_id info) = None"
  shows "meme_callback e info w = (Inr None, w)"
proof -
  let ?info = "info\<lparr>data := old_reactions (data info)\<rparr>"
  have absent: "pending w (chat_id ?info, message_id ?info) = None"
    using assms(3) by simp
  from assms(2) show ?thesis
  proof
    assume g: "globals (drop 5 d0 @ ''_callback'') = Some Approve_yes"
    show ?thesis
      by (simp add: meme_callback_call [OF assms(1) g] call_meme_def
          approve_yes_not_found [OF absent] edit_menu_nothing)
  next
    assume g: "globals (drop 5 d0 @ ''_callback'') = Some Approve_no"
    show ?thesis
      by (simp add: meme_callback_call [OF assms(1) g] call_meme_def
          approve_no_not_found [OF absent] edit_menu_nothing)
  qed
qed

text \<open>
  Claim C5 at a failing input. The approve handlers return \<^verbatim>\<open>(None, None, None)\<close>
  and change nothing when the pending post is absent (\<open>approve_yes_not_found\<close>,
  \<open>approve_no_not_found\<close>, \<open>meme_approve_absent\<close>). \<^verbatim>\<open>vote_callback\<close> has no such
  test: a vote on message 7 of the channel, which has no published post, raises
  \<^verbatim>\<open>AttributeError\<close>, and the dispatcher, which catches \<^verbatim>\<open>KeyError\<close> only, lets it
  escape.
\<close>

theorem vote_on_absent_post_raises:
  "published example_world (- 100, 7) = None
   \<and> vote_callback example_env (example_info (- 100) 7 ''meme_vote,1'' 3) ''1'' example_world
       = (Inl AttributeError, example_world)
   \<and> meme_callback example_env (example_info (- 100) 7 ''meme_vote,1'' 3) example_world
       = (Inl AttributeError, example_world)"
proof -
  let ?i = "example_info (- 100) 7 ''meme_vote,1'' 3"
  have absent: "published example_world (- 100, 7) = None"
    by (simp add: example_world_def)
  have absent': "published example_world (chat_id ?i, message_id ?i) = None"
    by (simp add: example_world_def example_info_def)
  have s: "split_comma (old_reactions (data ?i)) = [''meme_vote'', ''1'']"
    by (simp add: example_info_def old_reactions_def)
  have g: "globals (drop 5 ''meme_vote'' @ ''_callback'') = Some Vote"
    by (simp add: globals_def)
  from absent vote_callback_not_found [OF absent'] meme_vote_absent [OF s g absent']
  show ?thesis
    by (intro conjI)
qed


section \<open>The argument of a token\<close>

lemma confirm_no_IndexError: "fst (confirm_callback e info arg w) \<noteq> Inl IndexError"
  by (simp add: confirm_callback_def split_beta)

lemma settings_no_IndexError: "fst (settings_callback e info arg w) \<noteq> Inl IndexError"
  by (simp add: settings_callback_def split_beta)

lemma approve_yes_no_IndexError: "fst (approve_yes_callback e info arg w) \<noteq> Inl IndexError"
  by (simp add: approve_yes_callback_def Let_def split_beta send_post_to_def
      try_send_message_def split: option.splits)

lemma approve_no_no_IndexError: "fst (approve_no_callback e info arg w) \<noteq> Inl IndexError"
  by (simp add: approve_no_callback_def Let_def split_beta try_send_message_def
      split: option.splits)

lemma vote_no_IndexError: "fst (vote_callback e info arg w) \<noteq> Inl IndexError"
  by (simp add: vote_callback_def set_user_vote_def Let_def split: option.splits)

lemma report_spot_no_IndexError: "fst (report_spot_callback e info arg w) \<noteq> Inl IndexError"
  by (simp add: report_spot_callback_def Let_def split: option.splits)

lemma call_meme_no_IndexError: "fst (call_meme e f info arg w) \<noteq> Inl IndexError"
  by (cases f)
    (simp_all add: call_meme_def confirm_no_IndexError settings_no_IndexError
      approve_yes_no_IndexError approve_no_no_IndexError vote_no_IndexError
      report_spot_no_IndexError)

lemma edit_menu_returns: "fst (edit_menu info r w) = Inr (snd (snd r))"
  by (simp add: edit_menu_def split_beta)

lemma meme_callback_comma:
  assumes "CHR '','' \<in> set (old_reactions (data info))"
  shows "fst (meme_callback e info w) \<noteq> Inl IndexError"
proof -
  from split_comma_comma [OF assms] obtain d0 d1 ds
    where s: "split_comma (old_reactions (data info)) = d0 # d1 # ds"
    by blast
  show ?thesis
  proof (cases "globals (drop 5 d0 @ ''_callback'')")
    case None
    from meme_callback_unknown [OF s None] show ?thesis
      by simp
  next
    case (Some f)
    let ?info = "info\<lparr>data := old_reactions (data info)\<rparr>"
    obtain r w1 where c: "call_meme e f ?info d1 w = (r, w1)"
      by (cases "call_meme e f ?info d1 w")
    with call_meme_no_IndexError [of e f ?info d1 w] have "r \<noteq> Inl IndexError"
      by simp
    then show ?thesis
      by (cases r; cases "projl r")
        (simp_all add: meme_callback_call [OF s Some] c edit_menu_returns)
  qed
qed

lemma call_stats_no_IndexError: "call_stats e f arg \<noteq> Inl IndexError"
  by (cases f)
    (simp_all add: call_stats_def avg_callback_def max_callback_def tot_callback_def
      close_callback_def split_beta split: option.splits)

lemma stats_callback_no_argument:
  assumes "split_comma (data info) = [d0]"
    and "globals (drop 6 d0 @ ''_callback'') = Some f"
  shows "stats_callback e info w
         = (Inl IndexError, emit (AnswerCallbackQuery (query_id info) None) w)"
  using assms by (simp add: stats_callback_def)

lemma stats_callback_comma:
  assumes "CHR '','' \<in> set (data info)"
  shows "fst (stats_callback e info w) \<noteq> Inl IndexError"
proof -
  from split_comma_comma [OF assms] obtain d0 d1 ds
    where s: "split_comma (data info) = d0 # d1 # ds"
    by blast
  show ?thesis
  proof (cases "globals (drop 6 d0 @ ''_callback'')")
    case None
    from stats_callback_unknown [OF s None] show ?thesis
      by simp
  next
    case (Some f)
    from call_stats_no_IndexError [of e f d1] show ?thesis
      by (simp add: stats_callback_def s Some Let_def
          split: sum.splits py_error.splits option.splits list.splits)
  qed
qed


text \<open>
  Claim C10 says that a token with no comma is decoded and dispatched without raising.
  The token \<^verbatim>\<open>meme_approve_yes\<close> names a handler; \<^verbatim>\<open>data[1]\<close> does not exist and the
  \<^verbatim>\<open>IndexError\<close>, which the dispatcher does not catch, leaves \<^verbatim>\<open>meme_callback\<close>.
\<close>

theorem argument_omitted_counterexample:
  "CHR '','' \<notin> set (old_reactions (data (example_info (- 5) 40 ''meme_approve_yes'' 2)))
   \<and> meme_callback example_env (example_info (- 5) 40 ''meme_approve_yes'' 2) example_world
       = (Inl IndexError, example_world)"
proof -
  let ?i = "example_info (- 5) 40 ''meme_approve_yes'' 2"
  have d: "old_reactions (data ?i) = ''meme_approve_yes''"
    by (simp add: example_info_def old_reactions_def)
  have c: "CHR '','' \<notin> set (old_reactions (data ?i))"
    by (simp add: d)
  have g: "globals (drop 5 (old_reactions (data ?i)) @ ''_callback'') = Some Approve_yes"
    by (simp add: d globals_def)
  from c meme_callback_no_argument [OF split_comma_no_comma [OF c] g] show ?thesis
    by (intro conjI)
qed

text \<open>
  Claim C10, amended. The argument may be empty, but the comma is required. For a
  token with no comma (after the legacy rewriting), the dispatcher logs the failed
  lookup and returns when the command names no function of the module, and raises
  \<^verbatim>\<open>IndexError\<close> when it names one. For a token with a comma, decoding never raises
  \<^verbatim>\<open>IndexError\<close>. The same holds of \<^verbatim>\<open>stats_callback\<close>, which applies no rewriting.
\<close>

theorem comma_required:
  "(CHR '','' \<notin> set (old_reactions (data info)) \<longrightarrow>
      meme_callback e info w
        = (if globals (drop 5 (old_reactions (data info)) @ ''_callback'') = None
           then (Inr None,
                 emit (LogError (''meme_callback: '' @ drop 5 (old_reactions (data info))
                                 @ ''_callback'')) w)
           else (Inl IndexError, w)))
   \<and> (CHR '','' \<in> set (old_reactions (data info)) \<longrightarrow>
        fst (meme_callback e info w) \<noteq> Inl IndexError)
   \<and> (CHR '','' \<notin> set (data info) \<longrightarrow>
        stats_callback e info w
          = (if globals (drop 6 (data info) @ ''_callback'') = None
             then (Inr (),
                   emit (LogError (''stats_callback: '' @ drop 6 (data info) @ ''_callback''))
                     (emit (AnswerCallbackQuery (query_id info) None) w))
             else (Inl IndexError, emit (AnswerCallbackQuery (query_id info) None) w)))
   \<and> (CHR '','' \<in> set (data info) \<longrightarrow>
        fst (stats_callback e info w) \<noteq> Inl IndexError)"
proof (intro conjI impI)
  assume "CHR '','' \<notin> set (old_reactions (data info))"
  then have s: "split_comma (old_reactions (data info)) = [old_reactions (data info)]"
    by (rule split_comma_no_comma)
  show "meme_callback e info w
        = (if globals (drop 5 (old_reactions (data info)) @ ''_callback'') = None
           then (Inr None,
                 emit (LogError (''meme_callback: '' @ drop 5 (old_reactions (data info))
                                 @ ''_callback'')) w)
           else (Inl IndexError, w))"
  proof (cases "globals (drop 5 (old_reactions (data info)) @ ''_callback'')")
    case None
    from meme_callback_unknown [OF s None] None show ?thesis
      by simp
  next
    case (Some f)
    from meme_callback_no_argument [OF s Some] Some show ?thesis
      by simp
  qed
next
  assume "CHR '','' \<in> set (old_reactions (data info))"
  then show "fst (meme_callback e info w) \<noteq> Inl IndexError"
    by (rule meme_callback_comma)
next
  assume "CHR '','' \<notin> set (data info)"
  then have s: "split_comma (data info) = [data info]"
    by (rule split_comma_no_comma)
  show "stats_callback e info w
          = (if globals (drop 6 (data info) @ ''_callback'') = None
             then (Inr (),
                   emit (LogError (''stats_callback: '' @ drop 6 (data info) @ ''_callback''))
                     (emit (AnswerCallbackQuery (query_id info) None) w))
             else (Inl IndexError, emit (AnswerCallbackQuery (query_id info) None) w))"
  proof (cases "globals (drop 6 (data info) @ ''_callback'')")
    case None
    from stats_callback_unknown [OF s None] None show ?thesis
      by simp
  next
    case (Some f)
    from stats_callback_no_argument [OF s Some] Some show ?thesis
      by simp
  qed
next
  assume "CHR '','' \<in> set (data info)"
  then show "fst (stats_callback e info w) \<noteq> Inl IndexError"
    by (rule stats_callback_comma)
qed

theorem comma_required_witness:
  "CHR '','' \<notin> set (old_reactions (data (example_info (- 5) 40 ''meme_approve_no'' 2)))
   \<and> meme_callback example_env (example_info (- 5) 40 ''meme_approve_no'' 2) example_world
       = (Inl IndexError, example_world)
   \<and> CHR '','' \<in> set (old_reactions (data (example_info (- 5) 40 ''meme_approve_no,'' 2)))
   \<and> fst (meme_callback example_env (example_info (- 5) 40 ''meme_approve_no,'' 2) example_world)
       \<noteq> Inl IndexError
   \<and> CHR '','' \<notin> set (data (example_info (- 5) 40 ''stats_close'' 2))
   \<and> stats_callback example_env (example_info (- 5) 40 ''stats_close'' 2) example_world
       = (Inl IndexError, emit (AnswerCallbackQuery 1 None) example_world)
   \<and> CHR '','' \<in> set (data (example_info (- 5) 40 ''stats_close,'' 2))
   \<and> fst (stats_callback example_env (example_info (- 5) 40 ''stats_close,'' 2) example_world)
       \<noteq> Inl IndexError"
proof -
  let ?a = "example_info (- 5) 40 ''meme_approve_no'' 2"
  let ?b = "example_info (- 5) 40 ''meme_approve_no,'' 2"
  let ?c = "example_info (- 5) 40 ''stats_close'' 2"
  let ?d = "example_info (- 5) 40 ''stats_close,'' 2"
  have da: "old_reactions (data ?a) = ''meme_approve_no''"
    by (simp add: example_info_def old_reactions_def)
  have ca: "CHR '','' \<notin> set (old_reactions (data ?a))"
    by (simp add: da)
  have cb: "CHR '','' \<in> set (old_reactions (data ?b))"
    by (simp add: example_info_def old_reactions_def)
  have dc: "data ?c = ''stats_close''" "query_id ?c = 1"
    by (simp_all add: example_info_def)
  have cc: "CHR '','' \<notin> set (data ?c)"
    by (simp add: dc)
  have cd: "CHR '','' \<in> set (data ?d)"
    by (simp add: example_info_def)
  note t = comma_required
  have ra: "meme_callback example_env ?a example_world = (Inl IndexError, example_world)"
    using t [of ?a example_env example_world, THEN conjunct1, THEN mp, OF ca]
    by (simp add: da globals_def)
  have rb: "fst (meme_callback example_env ?b example_world) \<noteq> Inl IndexError"
    using t [of ?b example_env example_world, THEN conjunct2, THEN conjunct1, THEN mp, OF cb] .
  have rc: "stats_callback example_env ?c example_world
            = (Inl IndexError, emit (AnswerCallbackQuery 1 None) example_world)"
    using t [of ?c example_env example_world, THEN conjunct2, THEN conjunct2, THEN conjunct1,
        THEN mp, OF cc]
    by (simp add: dc globals_def)
  have rd: "fst (stats_callback example_env ?d example_world) \<noteq> Inl IndexError"
    using t [of ?d example_env example_world, THEN conjunct2, THEN conjunct2, THEN conjunct2,
        THEN mp, OF cd] .
  from ca ra cb rb cc rc cd rd show ?thesis
    by (intro conjI)
qed


section \<open>The report of a post\<close>

lemma report_spot_reports:
  "reports (snd (report_spot_callback e info args w)) = reports w"
  by (simp add: report_spot_callback_def Let_def emit_def split: option.splits)

lemma report_spot_present:
  assumes "reply_to_message info = Some m"
    and "reports w (sender_id info, channel_id e, m) = Some reason"
  shows "report_spot_callback e info args w
         = (Inr (None, None, Some (STATE_end e)),
            emit (AnswerCallbackQuery (query_id info) (Some ''Hai gia segnalato questo spot.'')) w)"
  using assms by (simp add: report_spot_callback_def get_post_report_def)

lemma report_spot_absent:
  assumes "reply_to_message info = Some m"
    and "reports w (sender_id info, channel_id e, m) = None"
  shows "fst (report_spot_callback e info args w)
         = (case notify e (sender_id info) of
              None \<Rightarrow> Inr (None, None, Some (STATE_reporting_spot e))
            | Some err \<Rightarrow> Inl (TelegramError err))"
  using assms
  by (simp add: report_spot_callback_def get_post_report_def Let_def split: option.splits)

lemma report_spot_result:
  assumes "reply_to_message info = Some m"
  shows "fst (report_spot_callback e info args w)
         = (case reports w (sender_id info, channel_id e, m) of
              Some reason \<Rightarrow> Inr (None, None, Some (STATE_end e))
            | None \<Rightarrow>
                (case notify e (sender_id info) of
                   None \<Rightarrow> Inr (None, None, Some (STATE_reporting_spot e))
                 | Some err \<Rightarrow> Inl (TelegramError err)))"
  using assms
  by (simp add: report_spot_callback_def get_post_report_def Let_def split: option.splits)

text \<open>
  Claim C7 says that the second report of a post by the same user is answered
  ``already reported''. \<^verbatim>\<open>report_spot_callback\<close> only probes the store: it creates no
  record, so a second call made before the reason has been collected finds no record
  either and proceeds to collect the reason again.
\<close>

theorem report_twice_counterexample:
  "reports example_world (3, - 100, 7) = None
   \<and> fst (report_spot_callback example_env (example_info (- 100) 7 ''meme_report_spot,'' 3) []
            example_world)
       = Inr (None, None, Some (STATE_reporting_spot example_env))
   \<and> fst (report_spot_callback example_env (example_info (- 100) 7 ''meme_report_spot,'' 3) []
            (snd (report_spot_callback example_env
                    (example_info (- 100) 7 ''meme_report_spot,'' 3) [] example_world)))
       = Inr (None, None, Some (STATE_reporting_spot example_env))
   \<and> STATE_reporting_spot example_env \<noteq> STATE_end example_env
   \<and> reports (snd (report_spot_callback example_env
                      (example_info (- 100) 7 ''meme_report_spot,'' 3) []
                      (snd (report_spot_callback example_env
                              (example_info (- 100) 7 ''meme_report_spot,'' 3) [] example_world))))
        (3, - 100, 7) = None"
proof -
  let ?i = "example_info (- 100) 7 ''meme_report_spot,'' 3"
  let ?w1 = "snd (report_spot_callback example_env ?i [] example_world)"
  have r: "reply_to_message ?i = Some 7"
    by (simp add: example_info_def)
  have a: "reports example_world (3, - 100, 7) = None"
    by (simp add: example_world_def)
  have a0: "reports example_world (sender_id ?i, channel_id example_env, 7) = None"
    by (simp add: example_world_def)
  have a1: "reports ?w1 (sender_id ?i, channel_id example_env, 7) = None"
    by (simp add: report_spot_reports example_world_def)
  have n: "notify example_env (sender_id ?i) = None"
    by (simp add: example_env_def)
  have first: "fst (report_spot_callback example_env ?i [] example_world)
               = Inr (None, None, Some (STATE_reporting_spot example_env))"
    using report_spot_absent [OF r a0, of "[]"] by (simp add: n)
  have second: "fst (report_spot_callback example_env ?i [] ?w1)
               = Inr (None, None, Some (STATE_reporting_spot example_env))"
    using report_spot_absent [OF r a1, of "[]"] by (simp add: n)
  have d: "STATE_reporting_spot example_env \<noteq> STATE_end example_env"
    by (simp add: example_env_def)
  have still: "reports (snd (report_spot_callback example_env ?i [] ?w1)) (3, - 100, 7) = None"
    by (simp add: report_spot_reports a)
  from a first second d still show ?thesis
    by (intro conjI)
qed

lemma report_spot_no_notice:
  assumes "reply_to_message info = Some m"
    and "reports w (sender_id info, channel_id e, m) = None"
  shows "AnswerCallbackQuery (query_id info) (Some ''Hai gia segnalato questo spot.'')
         \<notin> set (new_events w (snd (report_spot_callback e info args w)))"
  using assms
  by (simp add: report_spot_callback_def get_post_report_def Let_def emit_def new_events_def
      split: option.splits)

lemma report_spot_proceeds:
  assumes "reply_to_message info = Some m"
    and "reports w (sender_id info, channel_id e, m) = None"
    and "notify e (sender_id info) = None"
  shows "fst (report_spot_callback e info args w)
         = Inr (None, None, Some (STATE_reporting_spot e))"
  using report_spot_absent [OF assms(1,2), of args] by (simp add: assms(3))

text \<open>
  Claim C7, amended. On a callback that replies to a message, \<^verbatim>\<open>report_spot_callback\<close>
  never changes the reports. It answers ``already reported'' and ends the conversation
  exactly when the store holds a report of the sender on that message of the channel:
  when it holds none the notice is not given, and when the bot can reach the reporter
  the handler proceeds to collect the reason, as does a second call right after it.
  The reports of other users do not change its answer.
\<close>

theorem report_probe_only:
  assumes "reply_to_message info = Some m"
  shows
    "reports (snd (report_spot_callback e info args w)) = reports w
     \<and> (reports w (sender_id info, channel_id e, m) \<noteq> None \<longrightarrow>
          report_spot_callback e info args w
            = (Inr (None, None, Some (STATE_end e)),
               emit (AnswerCallbackQuery (query_id info)
                       (Some ''Hai gia segnalato questo spot.'')) w))
     \<and> (reports w (sender_id info, channel_id e, m) = None \<longrightarrow>
          AnswerCallbackQuery (query_id info) (Some ''Hai gia segnalato questo spot.'')
            \<notin> set (new_events w (snd (report_spot_callback e info args w)))
          \<and> (notify e (sender_id info) = None \<longrightarrow>
               fst (report_spot_callback e info args w)
                 = Inr (None, None, Some (STATE_reporting_spot e))
               \<and> fst (report_spot_callback e info args
                         (snd (report_spot_callback e info args w)))
                 = Inr (None, None, Some (STATE_reporting_spot e))))
     \<and> (\<forall>u reason. u \<noteq> sender_id info \<longrightarrow>
          fst (report_spot_callback e info args
                 (w\<lparr>reports := (reports w)((u, channel_id e, m) \<mapsto> reason)\<rparr>))
            = fst (report_spot_callback e info args w))"
proof (intro conjI impI allI)
  show "reports (snd (report_spot_callback e info args w)) = reports w"
    by (rule report_spot_reports)
next
  assume "reports w (sender_id info, channel_id e, m) \<noteq> None"
  then obtain reason where "reports w (sender_id info, channel_id e, m) = Some reason"
    by auto
  then show "report_spot_callback e info args w
            = (Inr (None, None, Some (STATE_end e)),
               emit (AnswerCallbackQuery (query_id info)
                       (Some ''Hai gia segnalato questo spot.'')) w)"
    by (rule report_spot_present [OF assms])
next
  assume a: "reports w (sender_id info, channel_id e, m) = None"
  show "AnswerCallbackQuery (query_id info) (Some ''Hai gia segnalato questo spot.'')
          \<notin> set (new_events w (snd (report_spot_callback e info args w)))"
    by (rule report_spot_no_notice [OF assms a])
  assume n: "notify e (sender_id info) = None"
  show "fst (report_spot_callback e info args w)
        = Inr (None, None, Some (STATE_reporting_spot e))"
    by (rule report_spot_proceeds [OF assms a n])
  have "reports (snd (report_spot_callback e info args w)) (sender_id info, channel_id e, m)
        = None"
    by (simp add: report_spot_reports a)
  then show "fst (report_spot_callback e info args (snd (report_spot_callback e info args w)))
        = Inr (None, None, Some (STATE_reporting_spot e))"
    by (rule report_spot_proceeds [OF assms _ n])
next
  fix u reason
  assume "u \<noteq> sender_id info"
  then show "fst (report_spot_callback e info args
                 (w\<lparr>reports := (reports w)((u, channel_id e, m) \<mapsto> reason)\<rparr>))
            = fst (report_spot_callback e info args w)"
    by (simp add: report_spot_result [OF assms])
qed

theorem report_probe_only_witness:
  "reply_to_message (example_info (- 100) 7 ''meme_report_spot,'' 3) = Some 7
   \<and> reports (example_world\<lparr>reports := [(3, - 100, 7) \<mapsto> ''spam'']\<rparr>) (3, - 100, 7) \<noteq> None
   \<and> fst (report_spot_callback example_env (example_info (- 100) 7 ''meme_report_spot,'' 3) []
            (example_world\<lparr>reports := [(3, - 100, 7) \<mapsto> ''spam'']\<rparr>))
       = Inr (None, None, Some (- 1))
   \<and> reports example_world (3, - 100, 7) = None
   \<and> notify example_env 3 = None
   \<and> fst (report_spot_callback example_env (example_info (- 100) 7 ''meme_report_spot,'' 3) []
            example_world)
       = Inr (None, None, Some 3)
   \<and> (4::int) \<noteq> 3
   \<and> fst (report_spot_callback example_env (example_info (- 100) 7 ''meme_report_spot,'' 3) []
            (example_world\<lparr>reports := (reports example_world)((4, - 100, 7) \<mapsto> ''spam'')\<rparr>))
       = Inr (None, None, Some 3)"
proof -
  let ?i = "example_info (- 100) 7 ''meme_report_spot,'' 3"
  let ?w = "example_world\<lparr>reports := [(3, - 100, 7) \<mapsto> ''spam'']\<rparr>"
  have r: "reply_to_message ?i = Some 7"
    by (simp add: example_info_def)
  have p: "reports ?w (3, - 100, 7) \<noteq> None"
    by simp
  have p': "reports ?w (sender_id ?i, channel_id example_env, 7) \<noteq> None"
    by (simp add: example_info_def example_env_def)
  have a: "reports example_world (3, - 100, 7) = None"
    by (simp add: example_world_def)
  have a': "reports example_world (sender_id ?i, channel_id example_env, 7) = None"
    by (simp add: example_world_def)
  have other: "(4::int) \<noteq> 3"
    by simp
  have other': "4 \<noteq> sender_id ?i"
    by (simp add: example_info_def)
  have c: "channel_id example_env = - 100" "STATE_end example_env = - 1"
    "STATE_reporting_spot example_env = 3" "notify example_env (sender_id ?i) = None"
    by (simp_all add: example_env_def)
  note t = report_probe_only [OF r, of example_env "[]"]
  have present: "fst (report_spot_callback example_env ?i [] ?w) = Inr (None, None, Some (- 1))"
    using t [of ?w, THEN conjunct2, THEN conjunct1, THEN mp, OF p'] by (simp add: c)
  have absent: "fst (report_spot_callback example_env ?i [] example_world)
                = Inr (None, None, Some 3)"
    using t [of example_world, THEN conjunct2, THEN conjunct2, THEN conjunct1, THEN mp, OF a',
        THEN conjunct2, THEN mp, OF c(4), THEN conjunct1]
    by (simp add: c)
  have "fst (report_spot_callback example_env ?i []
               (example_world\<lparr>reports := (reports example_world)
                                            ((4, channel_id example_env, 7) \<mapsto> ''spam'')\<rparr>))
        = fst (report_spot_callback example_env ?i [] example_world)"
    using t [of example_world, THEN conjunct2, THEN conjunct2, THEN conjunct2, THEN spec,
        THEN spec, THEN mp, OF other'] .
  then have independent: "fst (report_spot_callback example_env ?i []
               (example_world\<lparr>reports := (reports example_world)((4, - 100, 7) \<mapsto> ''spam'')\<rparr>))
        = Inr (None, None, Some 3)"
    by (simp add: c absent)
  have reachable: "notify example_env 3 = None"
    by (simp add: example_env_def)
  from r p present a reachable absent other independent show ?thesis
    by (intro conjI)
qed


section \<open>The scenario of the specification, one call after the other\<close>

text \<open>
  With a quorum of two and a pending post with no votes: the first admin's approval
  updates the keyboard with the count 1 and publishes nothing; the second admin's
  approval publishes the post once and deletes the pending post once; every later vote
  on the same message finds no pending post and does nothing. The calls of the second
  approval are taken to return: the post is sent to the channel, the submitter is
  notified or the failure is caught, \<^verbatim>\<open>show_admins_votes\<close> returns. The lemma says
  nothing of two calls that run at the same time.
\<close>

lemma first_vote:
  "set_admin_vote \<lparr>user_id = u, admin_votes = []\<rparr> a True
   = ((1, False), \<lparr>user_id = u, admin_votes = [(a, True)]\<rparr>)"
  by (simp add: set_admin_vote_def get_votes_def Let_def)

lemma second_vote:
  "a \<noteq> b \<Longrightarrow>
   set_admin_vote \<lparr>user_id = u, admin_votes = [(a, True)]\<rparr> b True
   = ((2, False), \<lparr>user_id = u, admin_votes = [(a, True), (b, True)]\<rparr>)"
  by (simp add: set_admin_vote_def get_votes_def Let_def)

lemma quorum_scenario:
  fixes e :: env and info :: info and arg :: string and w :: world and a b c u :: int
    and cm :: ident
  assumes post: "pending w (chat_id info, message_id info) = Some \<lparr>user_id = u, admin_votes = []\<rparr>"
    and quorum: "n_votes e = 2"
    and admins: "a \<noteq> b"
    and sent: "channel_message e = Some cm"
    and reached_or_caught: "notified e u"
    and shown: "show_admins_votes e (chat_id info, message_id info) True = None"
  defines "w1 \<equiv> snd (approve_yes_callback e (info\<lparr>sender_id := a\<rparr>) arg w)"
  defines "w2 \<equiv> snd (approve_yes_callback e (info\<lparr>sender_id := b\<rparr>) arg w1)"
  shows "fst (approve_yes_callback e (info\<lparr>sender_id := a\<rparr>) arg w)
         = Inr (None,
                Some (update_approve_kb (inline_keyboard info)
                        \<lparr>user_id = u, admin_votes = [(a, True)]\<rparr> (Some 1) None),
                None)"
    and "pending w1 (chat_id info, message_id info) = Some \<lparr>user_id = u, admin_votes = [(a, True)]\<rparr>"
    and "published w1 = published w"
    and "fst (approve_yes_callback e (info\<lparr>sender_id := b\<rparr>) arg w1) = Inr (None, None, None)"
    and "pending w2 (chat_id info, message_id info) = None"
    and "published w2 cm = Some \<lparr>user_votes = []\<rparr>"
    and "count_list (new_events w w2) (SendPostTo Channel cm) = 1"
    and "count_list (new_events w w2) (DeletePost (chat_id info, message_id info)) = 1"
    and "approve_yes_callback e (info\<lparr>sender_id := c\<rparr>) arg w2 = (Inr (None, None, None), w2)"
    and "approve_no_callback e (info\<lparr>sender_id := c\<rparr>) arg w2 = (Inr (None, None, None), w2)"
proof -
  let ?a = "info\<lparr>sender_id := a\<rparr>"
  let ?b = "info\<lparr>sender_id := b\<rparr>"
  let ?c = "info\<lparr>sender_id := c\<rparr>"
  let ?p1 = "\<lparr>user_id = u, admin_votes = [(a, True)]\<rparr>"
  have post_a: "pending w (chat_id ?a, message_id ?a) = Some \<lparr>user_id = u, admin_votes = []\<rparr>"
    using post by simp
  have below: "vote_count (fst (set_admin_vote \<lparr>user_id = u, admin_votes = []\<rparr> (sender_id ?a) True))
               < n_votes e"
    "vote_count (fst (set_admin_vote \<lparr>user_id = u, admin_votes = []\<rparr> (sender_id ?a) True)) \<noteq> - 1"
    by (simp_all add: first_vote vote_count_def quorum)
  note step1 = approve_yes_below [OF post_a below, of arg]
  show r1: "fst (approve_yes_callback e ?a arg w)
         = Inr (None, Some (update_approve_kb (inline_keyboard info) ?p1 (Some 1) None), None)"
    by (simp add: step1 first_vote vote_count_def)
  show p1: "pending w1 (chat_id info, message_id info) = Some ?p1"
    by (simp add: w1_def step1 first_vote emit_def)
  show "published w1 = published w"
    by (simp add: w1_def step1 emit_def)
  have t1: "trace w1 = trace w @ [AnswerCallbackQuery (query_id info) None]"
    by (simp add: w1_def step1 emit_def)
  have post_b: "pending w1 (chat_id ?b, message_id ?b) = Some ?p1"
    using p1 by simp
  have reached: "n_votes e \<le> vote_count (fst (set_admin_vote ?p1 (sender_id ?b) True))"
    using admins by (simp add: second_vote vote_count_def quorum)
  have sent_b: "channel_message e = Some cm"
    and notified_b: "notified e (user_id ?p1)"
    and shown_b: "show_admins_votes e (chat_id ?b, message_id ?b) True = None"
    using sent reached_or_caught shown by simp_all
  note step2 = approve_yes_promotes [OF post_b reached sent_b notified_b shown_b, of arg]
  show "fst (approve_yes_callback e ?b arg w1) = Inr (None, None, None)"
    by (rule step2(1))
  show gone: "pending w2 (chat_id info, message_id info) = None"
    using step2(2) by (simp add: w2_def)
  show "published w2 cm = Some \<lparr>user_votes = []\<rparr>"
    using step2(3) by (simp add: w2_def)
  have t2: "trace w2 = trace w1 @ new_events w1 w2"
    unfolding w2_def by (rule approve_yes_trace_grows)
  have all: "new_events w w2 = AnswerCallbackQuery (query_id info) None # new_events w1 w2"
    by (simp add: new_events_def [of w w2] t2 t1)
  have ev2: "new_events w1 w2
             = [AnswerCallbackQuery (query_id info) None,
                SendPostTo Channel cm,
                notification e u ''Il tuo ultimo post e stato pubblicato su @Spotted_DMI''
                  ''Notifying the user on approve_yes'',
                ShowAdminsVotes (chat_id info, message_id info) True,
                DeletePost (chat_id info, message_id info)]"
    using step2(4) by (simp add: w2_def)
  show "count_list (new_events w w2) (SendPostTo Channel cm) = 1"
    by (simp add: all ev2 notification_def split: option.splits)
  show "count_list (new_events w w2) (DeletePost (chat_id info, message_id info)) = 1"
    by (simp add: all ev2 notification_def split: option.splits)
  have gone_c: "pending w2 (chat_id ?c, message_id ?c) = None"
    using gone by simp
  show "approve_yes_callback e ?c arg w2 = (Inr (None, None, None), w2)"
    by (rule approve_yes_not_found [OF gone_c])
  show "approve_no_callback e ?c arg w2 = (Inr (None, None, None), w2)"
    by (rule approve_no_not_found [OF gone_c])
qed

end
